theory Spec2Isabelle
  imports Complex_Main "HOL-Library.AList"
begin

section \<open>Python values, exceptions and the runtime\<close>

text \<open>
  The formula engine of \<^verbatim>\<open>backend/app/formula_engine.py\<close> walks the tree that Python's
  \<^verbatim>\<open>ast.parse(expression, mode="eval")\<close> returns. This theory embeds the walk
  (\<^verbatim>\<open>_validate_node\<close>, \<^verbatim>\<open>_eval_node\<close>), the two entry points (\<^verbatim>\<open>validate\<close>,
  \<^verbatim>\<open>evaluate\<close>), the two tables (\<^verbatim>\<open>SAFE_OPERATORS\<close>, \<^verbatim>\<open>SAFE_FUNCTIONS\<close>) and the batch
  loop (\<^verbatim>\<open>compute_all_formulas\<close>).

  Scope of the embedding.
  \<^item> A Python value is \<^verbatim>\<open>None\<close>, a \<^verbatim>\<open>bool\<close>, an \<^verbatim>\<open>int\<close> (unbounded), a \<^verbatim>\<open>float\<close> or
    an object of any other type (a string, a date, a complex number): \<open>VObj\<close>, whose
    content is opaque.
  \<^item> A \<^verbatim>\<open>float\<close> is modelled by a real number: rounding, infinities and NaN are not
    modelled. Where CPython raises \<^verbatim>\<open>OverflowError\<close> the model does: when an \<^verbatim>\<open>int\<close> that is
    converted to \<^verbatim>\<open>float\<close> is beyond the range of floats, and when the result of \<^verbatim>\<open>int / int\<close>,
    of \<^verbatim>\<open>**\<close>, of \<^verbatim>\<open>math.exp\<close> or of \<^verbatim>\<open>round\<close> is. A sum, difference, product or quotient of
    floats beyond that range is an infinity in Python and a real number here. No statement
    below depends on the digits of a floating-point result.
  \<^item> The builtins that the tables refer to (\<^verbatim>\<open>operator.add\<close>, \<^verbatim>\<open>math.sqrt\<close>, \<^verbatim>\<open>sum\<close>, ...)
    belong to Python, not to the repository. They are written out on \<^verbatim>\<open>None\<close>, \<^verbatim>\<open>bool\<close>,
    \<^verbatim>\<open>int\<close> and \<^verbatim>\<open>float\<close> arguments; what they do on a call that involves an opaque object
    is a parameter (\<open>obj_call\<close> of the runtime record), about which nothing is assumed.
  \<^item> Exception messages that come from Python itself are those of CPython 3.11 (shortened
    for a wrong number of arguments); only the prefixes that \<^verbatim>\<open>evaluate\<close> and
    \<^verbatim>\<open>_validate_node\<close> put in front are the repository's.
  \<^item> \<^verbatim>\<open>str.lower\<close> and \<^verbatim>\<open>str.upper\<close> are modelled on ASCII letters.
  \<^item> The parser is Python's: the entry points below take the outcome of \<^verbatim>\<open>ast.parse\<close>
    (a tree or a \<^verbatim>\<open>SyntaxError\<close>) in place of the expression text.
\<close>

datatype 'o pyval = VNone | VBool bool | VInt int | VFloat real | VObj 'o

text \<open>The key of a failed dictionary lookup: a string, or a class (an operator type).\<close>

datatype pykey = KeyStr string | KeyType string

datatype exn =
    ZeroDivisionError string
  | ValueError string
  | KeyError pykey
  | TypeError string
  | AttributeError string
  | OverflowError string
  | SyntaxError string string
  | OtherException string string

record 'o runtime =
  obj_type :: "'o \<Rightarrow> string"
  obj_truth :: "'o \<Rightarrow> bool"
  obj_call :: "string \<Rightarrow> 'o pyval list \<Rightarrow> exn + 'o pyval"

type_synonym 'o callable = "'o pyval list \<Rightarrow> exn + 'o pyval"

text \<open>\<^verbatim>\<open>repr\<close> of a key and \<^verbatim>\<open>str\<close> of an exception, as the f-strings of \<^verbatim>\<open>evaluate\<close> print them.\<close>

definition quoted :: "string \<Rightarrow> string" where
  "quoted s = [CHR 0x27] @ s @ [CHR 0x27]"

fun repr_key :: "pykey \<Rightarrow> string" where
  "repr_key (KeyStr s) = quoted s"
| "repr_key (KeyType c) = ''<class '' @ quoted (''ast.'' @ c) @ ''>''"

fun exn_str :: "exn \<Rightarrow> string" where
  "exn_str (ZeroDivisionError m) = m"
| "exn_str (ValueError m) = m"
| "exn_str (KeyError k) = repr_key k"
| "exn_str (TypeError m) = m"
| "exn_str (AttributeError m) = m"
| "exn_str (OverflowError m) = m"
| "exn_str (SyntaxError m d) = m @ '' ('' @ d @ '')''"
| "exn_str (OtherException c m) = m"

fun is_None :: "'o pyval \<Rightarrow> bool" where
  "is_None VNone = True"
| "is_None _ = False"

fun is_obj :: "'o pyval \<Rightarrow> bool" where
  "is_obj (VObj _) = True"
| "is_obj _ = False"

fun type_name :: "'o runtime \<Rightarrow> 'o pyval \<Rightarrow> string" where
  "type_name rt VNone = ''NoneType''"
| "type_name rt (VBool _) = ''bool''"
| "type_name rt (VInt _) = ''int''"
| "type_name rt (VFloat _) = ''float''"
| "type_name rt (VObj x) = obj_type rt x"

text \<open>Truth value testing (\<^verbatim>\<open>if x\<close>, \<^verbatim>\<open>not x\<close>).\<close>

fun truthy :: "'o runtime \<Rightarrow> 'o pyval \<Rightarrow> bool" where
  "truthy rt VNone = False"
| "truthy rt (VBool b) = b"
| "truthy rt (VInt i) = (i \<noteq> 0)"
| "truthy rt (VFloat r) = (r \<noteq> 0)"
| "truthy rt (VObj x) = obj_truth rt x"

text \<open>Numbers: a \<^verbatim>\<open>bool\<close> is the \<^verbatim>\<open>int\<close> 0 or 1 in arithmetic.\<close>

datatype num = I int | F real

fun as_num :: "'o pyval \<Rightarrow> num option" where
  "as_num (VBool b) = Some (I (if b then 1 else 0))"
| "as_num (VInt i) = Some (I i)"
| "as_num (VFloat r) = Some (F r)"
| "as_num _ = None"

fun to_real :: "num \<Rightarrow> real" where
  "to_real (I i) = of_int i"
| "to_real (F r) = r"

text \<open>
  The range of floats. The largest float is \<open>2 ^ 1024 - 2 ^ 971\<close>; a number rounds to a
  float when its magnitude is below \<open>2 ^ 1024 - 2 ^ 970\<close>, half-way to \<open>2 ^ 1024\<close>. An
  \<^verbatim>\<open>int\<close> beyond that is too large to convert to \<^verbatim>\<open>float\<close>.
\<close>

definition float_limit :: real where
  "float_limit = 2 ^ 1024 - 2 ^ 970"

fun fits_float :: "num \<Rightarrow> bool" where
  "fits_float (I i) = (\<bar>of_int i\<bar> < float_limit)"
| "fits_float (F r) = True"

definition to_float :: "num \<Rightarrow> exn + real" where
  "to_float x =
     (if fits_float x then Inr (to_real x)
      else Inl (OverflowError ''int too large to convert to float''))"

definition float_result :: "string \<Rightarrow> real \<Rightarrow> exn + 'o pyval" where
  "float_result msg r = (if \<bar>r\<bar> < float_limit then Inr (VFloat r) else Inl (OverflowError msg))"

text \<open>A builtin applied to arguments one of which is an opaque object is the runtime's.\<close>

definition py_builtin :: "'o runtime \<Rightarrow> string \<Rightarrow> 'o callable \<Rightarrow> 'o callable" where
  "py_builtin rt name core args =
     (if list_ex is_obj args then obj_call rt name args else core args)"

definition arity_error :: "string \<Rightarrow> exn + 'a" where
  "arity_error name = Inl (TypeError (name @ ''() got the wrong number of arguments''))"

definition operand_error :: "'o runtime \<Rightarrow> string \<Rightarrow> 'o pyval \<Rightarrow> 'o pyval \<Rightarrow> exn + 'a" where
  "operand_error rt symb a b = Inl (TypeError (''unsupported operand type(s) for '' @ symb @ '': ''
      @ quoted (type_name rt a) @ '' and '' @ quoted (type_name rt b)))"

definition compare_error :: "'o runtime \<Rightarrow> string \<Rightarrow> 'o pyval \<Rightarrow> 'o pyval \<Rightarrow> exn + 'a" where
  "compare_error rt symb a b = Inl (TypeError (quoted symb @ '' not supported between instances of ''
      @ quoted (type_name rt a) @ '' and '' @ quoted (type_name rt b)))"

definition real_error :: "'o runtime \<Rightarrow> 'o pyval \<Rightarrow> exn + 'a" where
  "real_error rt a = Inl (TypeError (''must be real number, not '' @ type_name rt a))"

subsection \<open>The functions of module \<^verbatim>\<open>operator\<close>\<close>

fun arith2 :: "'o runtime \<Rightarrow> string \<Rightarrow> (int \<Rightarrow> int \<Rightarrow> int) \<Rightarrow> (real \<Rightarrow> real \<Rightarrow> real) \<Rightarrow> 'o callable" where
  "arith2 rt symb fi fr [a, b] =
     (case (as_num a, as_num b) of
        (Some (I x), Some (I y)) \<Rightarrow> Inr (VInt (fi x y))
      | (Some x, Some y) \<Rightarrow>
          (case to_float x of
             Inl e \<Rightarrow> Inl e
           | Inr u \<Rightarrow>
               (case to_float y of
                  Inl e \<Rightarrow> Inl e
                | Inr v \<Rightarrow> Inr (VFloat (fr u v))))
      | _ \<Rightarrow> operand_error rt symb a b)"
| "arith2 rt symb fi fr _ = arity_error symb"

definition operator_add :: "'o runtime \<Rightarrow> 'o callable" where
  "operator_add rt = py_builtin rt ''add'' (arith2 rt ''+'' (+) (+))"

definition operator_sub :: "'o runtime \<Rightarrow> 'o callable" where
  "operator_sub rt = py_builtin rt ''sub'' (arith2 rt ''-'' (-) (-))"

definition operator_mul :: "'o runtime \<Rightarrow> 'o callable" where
  "operator_mul rt = py_builtin rt ''mul'' (arith2 rt ''*'' (*) (*))"

fun truediv_core :: "'o runtime \<Rightarrow> 'o callable" where
  "truediv_core rt [a, b] =
     (case (as_num a, as_num b) of
        (Some (I x), Some (I y)) \<Rightarrow>
          (if y = 0 then Inl (ZeroDivisionError ''division by zero'')
           else float_result ''integer division result too large for a float''
                  (of_int x / of_int y))
      | (Some x, Some y) \<Rightarrow>
          (case to_float x of
             Inl e \<Rightarrow> Inl e
           | Inr u \<Rightarrow>
               (case to_float y of
                  Inl e \<Rightarrow> Inl e
                | Inr v \<Rightarrow>
                    (if v = 0 then Inl (ZeroDivisionError ''float division by zero'')
                     else Inr (VFloat (u / v)))))
      | _ \<Rightarrow> operand_error rt ''/'' a b)"
| "truediv_core rt _ = arity_error ''truediv''"

definition operator_truediv :: "'o runtime \<Rightarrow> 'o callable" where
  "operator_truediv rt = py_builtin rt ''truediv'' (truediv_core rt)"

fun mod_core :: "'o runtime \<Rightarrow> 'o callable" where
  "mod_core rt [a, b] =
     (case (as_num a, as_num b) of
        (Some (I x), Some (I y)) \<Rightarrow>
          (if y = 0 then Inl (ZeroDivisionError ''integer division or modulo by zero'')
           else Inr (VInt (x mod y)))
      | (Some x, Some y) \<Rightarrow>
          (case to_float x of
             Inl e \<Rightarrow> Inl e
           | Inr u \<Rightarrow>
               (case to_float y of
                  Inl e \<Rightarrow> Inl e
                | Inr v \<Rightarrow>
                    (if v = 0 then Inl (ZeroDivisionError ''float modulo'')
                     else Inr (VFloat (u - v * of_int \<lfloor>u / v\<rfloor>)))))
      | _ \<Rightarrow> operand_error rt ''%'' a b)"
| "mod_core rt _ = arity_error ''mod''"

definition operator_mod :: "'o runtime \<Rightarrow> 'o callable" where
  "operator_mod rt = py_builtin rt ''mod'' (mod_core rt)"

text \<open>
  \<^verbatim>\<open>float.__pow__\<close>: both operands are converted to \<^verbatim>\<open>float\<close> first; a negative base with
  a fractional exponent gives a complex number, an opaque object here; a result beyond the
  range of floats raises.
\<close>

definition range_error :: string where
  "range_error = ''(34, '' @ quoted ''Numerical result out of range'' @ '')''"

definition float_pow :: "'o runtime \<Rightarrow> 'o pyval list \<Rightarrow> num \<Rightarrow> num \<Rightarrow> exn + 'o pyval" where
  "float_pow rt args base exponent =
     (case to_float base of
        Inl e \<Rightarrow> Inl e
      | Inr x \<Rightarrow>
          (case to_float exponent of
             Inl e \<Rightarrow> Inl e
           | Inr y \<Rightarrow>
               (if y = 0 then Inr (VFloat 1)
                else if x = 0 then
                  (if y < 0
                   then Inl (ZeroDivisionError ''0.0 cannot be raised to a negative power'')
                   else Inr (VFloat 0))
                else if x < 0 then
                  (if y = of_int \<lfloor>y\<rfloor> then
                     float_result range_error
                       (if 0 \<le> y then x ^ nat \<lfloor>y\<rfloor> else 1 / x ^ nat (- \<lfloor>y\<rfloor>))
                   else obj_call rt ''pow'' args)
                else float_result range_error (x powr y))))"

fun pow_core :: "'o runtime \<Rightarrow> 'o callable" where
  "pow_core rt [a, b] =
     (case (as_num a, as_num b) of
        (Some (I x), Some (I y)) \<Rightarrow>
          (if 0 \<le> y then Inr (VInt (x ^ nat y)) else float_pow rt [a, b] (I x) (I y))
      | (Some x, Some y) \<Rightarrow> float_pow rt [a, b] x y
      | _ \<Rightarrow> operand_error rt ''** or pow()'' a b)"
| "pow_core rt _ = arity_error ''pow''"

definition operator_pow :: "'o runtime \<Rightarrow> 'o callable" where
  "operator_pow rt = py_builtin rt ''pow'' (pow_core rt)"

fun neg_core :: "'o runtime \<Rightarrow> 'o callable" where
  "neg_core rt [a] =
     (case as_num a of
        Some (I x) \<Rightarrow> Inr (VInt (- x))
      | Some (F x) \<Rightarrow> Inr (VFloat (- x))
      | None \<Rightarrow> Inl (TypeError (''bad operand type for unary -: '' @ quoted (type_name rt a))))"
| "neg_core rt _ = arity_error ''neg''"

definition operator_neg :: "'o runtime \<Rightarrow> 'o callable" where
  "operator_neg rt = py_builtin rt ''neg'' (neg_core rt)"

fun pos_core :: "'o runtime \<Rightarrow> 'o callable" where
  "pos_core rt [a] =
     (case as_num a of
        Some (I x) \<Rightarrow> Inr (VInt x)
      | Some (F x) \<Rightarrow> Inr (VFloat x)
      | None \<Rightarrow> Inl (TypeError (''bad operand type for unary +: '' @ quoted (type_name rt a))))"
| "pos_core rt _ = arity_error ''pos''"

definition operator_pos :: "'o runtime \<Rightarrow> 'o callable" where
  "operator_pos rt = py_builtin rt ''pos'' (pos_core rt)"

fun operator_not :: "'o runtime \<Rightarrow> 'o callable" where
  "operator_not rt [a] = Inr (VBool (\<not> truthy rt a))"
| "operator_not rt _ = arity_error ''not_''"

fun order2 :: "'o runtime \<Rightarrow> string \<Rightarrow> (real \<Rightarrow> real \<Rightarrow> bool) \<Rightarrow> 'o callable" where
  "order2 rt symb rel [a, b] =
     (case (as_num a, as_num b) of
        (Some x, Some y) \<Rightarrow> Inr (VBool (rel (to_real x) (to_real y)))
      | _ \<Rightarrow> compare_error rt symb a b)"
| "order2 rt symb rel _ = arity_error symb"

definition operator_gt :: "'o runtime \<Rightarrow> 'o callable" where
  "operator_gt rt = py_builtin rt ''gt'' (order2 rt ''>'' (\<lambda>x y. y < x))"

definition operator_lt :: "'o runtime \<Rightarrow> 'o callable" where
  "operator_lt rt = py_builtin rt ''lt'' (order2 rt ''<'' (\<lambda>x y. x < y))"

definition operator_ge :: "'o runtime \<Rightarrow> 'o callable" where
  "operator_ge rt = py_builtin rt ''ge'' (order2 rt ''>='' (\<lambda>x y. y \<le> x))"

definition operator_le :: "'o runtime \<Rightarrow> 'o callable" where
  "operator_le rt = py_builtin rt ''le'' (order2 rt ''<='' (\<lambda>x y. x \<le> y))"

text \<open>\<^verbatim>\<open>==\<close> never raises on these values: numbers compare by value, \<^verbatim>\<open>None\<close> equals itself only.\<close>

fun py_equal :: "'o pyval \<Rightarrow> 'o pyval \<Rightarrow> bool" where
  "py_equal VNone VNone = True"
| "py_equal a b =
     (case (as_num a, as_num b) of (Some x, Some y) \<Rightarrow> to_real x = to_real y | _ \<Rightarrow> False)"

fun eq_core :: "'o callable" where
  "eq_core [a, b] = Inr (VBool (py_equal a b))"
| "eq_core _ = arity_error ''eq''"

fun ne_core :: "'o callable" where
  "ne_core [a, b] = Inr (VBool (\<not> py_equal a b))"
| "ne_core _ = arity_error ''ne''"

definition operator_eq :: "'o runtime \<Rightarrow> 'o callable" where
  "operator_eq rt = py_builtin rt ''eq'' eq_core"

definition operator_ne :: "'o runtime \<Rightarrow> 'o callable" where
  "operator_ne rt = py_builtin rt ''ne'' ne_core"


subsection \<open>The builtins behind \<^verbatim>\<open>SAFE_FUNCTIONS\<close>\<close>

fun sqrt_core :: "'o runtime \<Rightarrow> 'o callable" where
  "sqrt_core rt [a] =
     (case as_num a of
        None \<Rightarrow> real_error rt a
      | Some x \<Rightarrow>
          (case to_float x of
             Inl e \<Rightarrow> Inl e
           | Inr u \<Rightarrow>
               (if u < 0 then Inl (ValueError ''math domain error'')
                else Inr (VFloat (sqrt u)))))"
| "sqrt_core rt _ = arity_error ''sqrt''"

definition math_sqrt :: "'o runtime \<Rightarrow> 'o callable" where
  "math_sqrt rt = py_builtin rt ''math.sqrt'' (sqrt_core rt)"

fun abs_core :: "'o runtime \<Rightarrow> 'o callable" where
  "abs_core rt [a] =
     (case as_num a of
        Some (I x) \<Rightarrow> Inr (VInt \<bar>x\<bar>)
      | Some (F x) \<Rightarrow> Inr (VFloat \<bar>x\<bar>)
      | None \<Rightarrow> Inl (TypeError (''bad operand type for abs(): '' @ quoted (type_name rt a))))"
| "abs_core rt _ = arity_error ''abs''"

definition builtin_abs :: "'o runtime \<Rightarrow> 'o callable" where
  "builtin_abs rt = py_builtin rt ''abs'' (abs_core rt)"

text \<open>
  \<^verbatim>\<open>max(*args)\<close> and \<^verbatim>\<open>min(*args)\<close>: a single argument is taken for an iterable, which a
  number is not; with two or more, the first argument is kept until a later one compares
  strictly greater (smaller).
\<close>

definition not_iterable :: "'o runtime \<Rightarrow> 'o pyval \<Rightarrow> exn + 'a" where
  "not_iterable rt a = Inl (TypeError (quoted (type_name rt a) @ '' object is not iterable''))"

fun select_loop :: "'o runtime \<Rightarrow> string \<Rightarrow> (real \<Rightarrow> real \<Rightarrow> bool) \<Rightarrow> 'o pyval \<Rightarrow> 'o pyval list \<Rightarrow> exn + 'o pyval" where
  "select_loop rt symb rel best [] = Inr best"
| "select_loop rt symb rel best (item # items) =
     (case (as_num item, as_num best) of
        (Some x, Some y) \<Rightarrow>
          select_loop rt symb rel (if rel (to_real x) (to_real y) then item else best) items
      | _ \<Rightarrow> compare_error rt symb item best)"

fun max_core :: "'o runtime \<Rightarrow> 'o callable" where
  "max_core rt [] = Inl (TypeError ''max expected at least 1 argument, got 0'')"
| "max_core rt [a] = not_iterable rt a"
| "max_core rt (a # items) = select_loop rt ''>'' (\<lambda>x y. y < x) a items"

fun min_core :: "'o runtime \<Rightarrow> 'o callable" where
  "min_core rt [] = Inl (TypeError ''min expected at least 1 argument, got 0'')"
| "min_core rt [a] = not_iterable rt a"
| "min_core rt (a # items) = select_loop rt ''<'' (\<lambda>x y. x < y) a items"

definition builtin_max :: "'o runtime \<Rightarrow> 'o callable" where
  "builtin_max rt = py_builtin rt ''max'' (max_core rt)"

definition builtin_min :: "'o runtime \<Rightarrow> 'o callable" where
  "builtin_min rt = py_builtin rt ''min'' (min_core rt)"

text \<open>
  \<^verbatim>\<open>sum(*args)\<close>: the first argument is taken for an iterable, the second for the start
  value; no number is iterable, so on numbers and \<^verbatim>\<open>None\<close> the call always raises.
\<close>

fun sum_core :: "'o runtime \<Rightarrow> 'o callable" where
  "sum_core rt [] = Inl (TypeError ''sum() takes at least 1 positional argument (0 given)'')"
| "sum_core rt [a] = not_iterable rt a"
| "sum_core rt [a, start] = not_iterable rt a"
| "sum_core rt _ = Inl (TypeError ''sum() takes at most 2 arguments'')"

definition builtin_sum :: "'o runtime \<Rightarrow> 'o callable" where
  "builtin_sum rt = py_builtin rt ''sum'' (sum_core rt)"

text \<open>\<^verbatim>\<open>sum(args)\<close> on the argument tuple, as the \<^verbatim>\<open>AVG\<close> lambda calls it: \<^verbatim>\<open>0 + a1 + a2 + ...\<close>.\<close>

fun sum_items :: "'o runtime \<Rightarrow> 'o pyval \<Rightarrow> 'o pyval list \<Rightarrow> exn + 'o pyval" where
  "sum_items rt acc [] = Inr acc"
| "sum_items rt acc (a # as) =
     (case operator_add rt [acc, a] of
        Inl e \<Rightarrow> Inl e
      | Inr acc' \<Rightarrow> sum_items rt acc' as)"

text \<open>
  \<^verbatim>\<open>pow(*args)\<close>: two arguments as \<^verbatim>\<open>**\<close>; three arguments are integers, the third the
  modulus (a negative exponent asks for the modular inverse of the base).
\<close>

fun index_of :: "'o pyval \<Rightarrow> int option" where
  "index_of (VBool b) = Some (if b then 1 else 0)"
| "index_of (VInt i) = Some i"
| "index_of _ = None"

definition pow_mod :: "int \<Rightarrow> int \<Rightarrow> int \<Rightarrow> exn + 'o pyval" where
  "pow_mod x y m =
     (if m = 0 then Inl (ValueError ''pow() 3rd argument cannot be 0'')
      else if 0 \<le> y then Inr (VInt ((x ^ nat y) mod m))
      else (case find (\<lambda>i. (x * i) mod m = 1 mod m) (map int [0..<nat \<bar>m\<bar>]) of
              None \<Rightarrow> Inl (ValueError ''base is not invertible for the given modulus'')
            | Some i \<Rightarrow> Inr (VInt ((i ^ nat (- y)) mod m))))"

fun pow3_core :: "'o runtime \<Rightarrow> 'o callable" where
  "pow3_core rt [a, b] = pow_core rt [a, b]"
| "pow3_core rt [a, b, VNone] = pow_core rt [a, b]"
| "pow3_core rt [a, b, m] =
     (case (index_of a, index_of b, index_of m) of
        (Some x, Some y, Some z) \<Rightarrow> pow_mod x y z
      | _ \<Rightarrow> Inl (TypeError ''pow() 3rd argument not allowed unless all arguments are integers''))"
| "pow3_core rt _ = arity_error ''pow''"

definition builtin_pow :: "'o runtime \<Rightarrow> 'o callable" where
  "builtin_pow rt = py_builtin rt ''pow'' (pow3_core rt)"

text \<open>
  \<^verbatim>\<open>math.log(x[, base])\<close>, \<^verbatim>\<open>math.log10\<close>, \<^verbatim>\<open>math.exp\<close>. The logarithm of an \<^verbatim>\<open>int\<close> is
  computed without converting it, so it never overflows; \<^verbatim>\<open>math.sqrt\<close> and \<^verbatim>\<open>math.exp\<close>
  convert their argument first.
\<close>

definition log_helper :: "'o runtime \<Rightarrow> 'o pyval \<Rightarrow> exn + real" where
  "log_helper rt a =
     (case as_num a of
        None \<Rightarrow> real_error rt a
      | Some x \<Rightarrow>
          (if to_real x \<le> 0 then Inl (ValueError ''math domain error'')
           else Inr (ln (to_real x))))"

fun log_core :: "'o runtime \<Rightarrow> 'o callable" where
  "log_core rt [a] =
     (case log_helper rt a of Inl e \<Rightarrow> Inl e | Inr n \<Rightarrow> Inr (VFloat n))"
| "log_core rt [a, b] =
     (case log_helper rt a of
        Inl e \<Rightarrow> Inl e
      | Inr n \<Rightarrow>
          (case log_helper rt b of
             Inl e \<Rightarrow> Inl e
           | Inr d \<Rightarrow>
               (if d = 0 then Inl (ZeroDivisionError ''float division by zero'')
                else Inr (VFloat (n / d)))))"
| "log_core rt _ = arity_error ''log''"

definition math_log :: "'o runtime \<Rightarrow> 'o callable" where
  "math_log rt = py_builtin rt ''math.log'' (log_core rt)"

fun log10_core :: "'o runtime \<Rightarrow> 'o callable" where
  "log10_core rt [a] =
     (case log_helper rt a of Inl e \<Rightarrow> Inl e | Inr n \<Rightarrow> Inr (VFloat (n / ln 10)))"
| "log10_core rt _ = arity_error ''log10''"

definition math_log10 :: "'o runtime \<Rightarrow> 'o callable" where
  "math_log10 rt = py_builtin rt ''math.log10'' (log10_core rt)"

fun exp_core :: "'o runtime \<Rightarrow> 'o callable" where
  "exp_core rt [a] =
     (case as_num a of
        None \<Rightarrow> real_error rt a
      | Some x \<Rightarrow>
          (case to_float x of
             Inl e \<Rightarrow> Inl e
           | Inr u \<Rightarrow> float_result ''math range error'' (exp u)))"
| "exp_core rt _ = arity_error ''exp''"

definition math_exp :: "'o runtime \<Rightarrow> 'o callable" where
  "math_exp rt = py_builtin rt ''math.exp'' (exp_core rt)"

text \<open>\<^verbatim>\<open>round(number[, ndigits])\<close> rounds half to even.\<close>

definition round_half_even :: "real \<Rightarrow> int" where
  "round_half_even x =
     (let f = \<lfloor>x\<rfloor>; d = x - of_int f
      in if d < 1 / 2 then f else if 1 / 2 < d then f + 1 else if even f then f else f + 1)"

definition round_digits :: "num \<Rightarrow> int \<Rightarrow> exn + 'o pyval" where
  "round_digits x n =
     (case x of
        I i \<Rightarrow> (if 0 \<le> n then Inr (VInt i)
                else Inr (VInt (round_half_even (of_int i / 10 ^ nat (- n)) * 10 ^ nat (- n))))
      | F r \<Rightarrow> float_result ''rounded value too large to represent''
                (if 0 \<le> n then of_int (round_half_even (r * 10 ^ nat n)) / 10 ^ nat n
                 else of_int (round_half_even (r / 10 ^ nat (- n))) * 10 ^ nat (- n)))"

definition round_whole :: "'o runtime \<Rightarrow> 'o pyval \<Rightarrow> exn + 'o pyval" where
  "round_whole rt a =
     (case as_num a of
        Some (I i) \<Rightarrow> Inr (VInt i)
      | Some (F r) \<Rightarrow> Inr (VInt (round_half_even r))
      | None \<Rightarrow> Inl (TypeError (''type '' @ type_name rt a @ '' doesn't define __round__ method'')))"

fun round_core :: "'o runtime \<Rightarrow> 'o callable" where
  "round_core rt [a] = round_whole rt a"
| "round_core rt [a, VNone] = round_whole rt a"
| "round_core rt [a, n] =
     (case as_num a of
        None \<Rightarrow> Inl (TypeError (''type '' @ type_name rt a @ '' doesn't define __round__ method''))
      | Some x \<Rightarrow>
          (case index_of n of
             None \<Rightarrow> Inl (TypeError (quoted (type_name rt n) @ '' object cannot be interpreted as an integer''))
           | Some d \<Rightarrow> round_digits x d))"
| "round_core rt _ = arity_error ''round''"

definition builtin_round :: "'o runtime \<Rightarrow> 'o callable" where
  "builtin_round rt = py_builtin rt ''round'' (round_core rt)"

fun floor_core :: "'o runtime \<Rightarrow> 'o callable" where
  "floor_core rt [a] =
     (case as_num a of
        Some (I i) \<Rightarrow> Inr (VInt i)
      | Some (F r) \<Rightarrow> Inr (VInt \<lfloor>r\<rfloor>)
      | None \<Rightarrow> real_error rt a)"
| "floor_core rt _ = arity_error ''floor''"

definition math_floor :: "'o runtime \<Rightarrow> 'o callable" where
  "math_floor rt = py_builtin rt ''math.floor'' (floor_core rt)"

fun ceil_core :: "'o runtime \<Rightarrow> 'o callable" where
  "ceil_core rt [a] =
     (case as_num a of
        Some (I i) \<Rightarrow> Inr (VInt i)
      | Some (F r) \<Rightarrow> Inr (VInt \<lceil>r\<rceil>)
      | None \<Rightarrow> real_error rt a)"
| "ceil_core rt _ = arity_error ''ceil''"

definition math_ceil :: "'o runtime \<Rightarrow> 'o callable" where
  "math_ceil rt = py_builtin rt ''math.ceil'' (ceil_core rt)"


section \<open>The abstract syntax tree of Python's \<^verbatim>\<open>ast\<close> module\<close>

text \<open>
  The operator classes of \<^verbatim>\<open>ast\<close>; \<^verbatim>\<open>SAFE_OPERATORS\<close> is keyed by them. \<open>Pow_op\<close> and
  \<open>Not_op\<close> are \<^verbatim>\<open>ast.Pow\<close> and \<^verbatim>\<open>ast.Not\<close>. In Python's grammar \<^verbatim>\<open>**\<close> is \<^verbatim>\<open>ast.Pow\<close>
  and \<^verbatim>\<open>^\<close> is \<^verbatim>\<open>ast.BitXor\<close>.
\<close>

datatype optype =
    Add | Sub | Mult | Div | Pow_op | Mod | FloorDiv | MatMult
  | LShift | RShift | BitOr | BitXor | BitAnd
  | USub | UAdd | Not_op | Invert
  | Gt | Lt | GtE | LtE | Eq | NotEq | Is | IsNot | In | NotIn
  | And | Or

text \<open>\<^verbatim>\<open>type(op).__name__\<close>\<close>

fun op_name :: "optype \<Rightarrow> string" where
  "op_name Add = ''Add''" | "op_name Sub = ''Sub''" | "op_name Mult = ''Mult''"
| "op_name Div = ''Div''" | "op_name Pow_op = ''Pow''" | "op_name Mod = ''Mod''"
| "op_name FloorDiv = ''FloorDiv''" | "op_name MatMult = ''MatMult''"
| "op_name LShift = ''LShift''" | "op_name RShift = ''RShift''"
| "op_name BitOr = ''BitOr''" | "op_name BitXor = ''BitXor''" | "op_name BitAnd = ''BitAnd''"
| "op_name USub = ''USub''" | "op_name UAdd = ''UAdd''" | "op_name Not_op = ''Not''"
| "op_name Invert = ''Invert''"
| "op_name Gt = ''Gt''" | "op_name Lt = ''Lt''" | "op_name GtE = ''GtE''"
| "op_name LtE = ''LtE''" | "op_name Eq = ''Eq''" | "op_name NotEq = ''NotEq''"
| "op_name Is = ''Is''" | "op_name IsNot = ''IsNot''" | "op_name In = ''In''"
| "op_name NotIn = ''NotIn''" | "op_name And = ''And''" | "op_name Or = ''Or''"

text \<open>
  The expression nodes. \<open>Constant\<close> holds \<^verbatim>\<open>node.value\<close>, \<open>Name\<close> holds \<^verbatim>\<open>node.id\<close>,
  \<open>Compare\<close> holds \<^verbatim>\<open>left\<close>, \<^verbatim>\<open>ops\<close> and \<^verbatim>\<open>comparators\<close>, \<open>Call\<close> holds \<^verbatim>\<open>func\<close> and
  \<^verbatim>\<open>args\<close> (the engine never reads \<^verbatim>\<open>keywords\<close>), \<open>IfExp\<close> holds \<^verbatim>\<open>test\<close>, \<^verbatim>\<open>body\<close> and
  \<^verbatim>\<open>orelse\<close>. A node of any other class is \<open>OtherNode\<close> with the name of its class; the
  engine never looks inside one.
\<close>

datatype 'o node =
    Constant "'o pyval"
  | Name string
  | BinOp "'o node" optype "'o node"
  | UnaryOp optype "'o node"
  | Compare "'o node" "optype list" "'o node list"
  | BoolOp optype "'o node list"
  | Call "'o node" "'o node list"
  | IfExp "'o node" "'o node" "'o node"
  | OtherNode string

text \<open>What \<^verbatim>\<open>ast.parse(expression, mode="eval")\<close> does: raise \<^verbatim>\<open>SyntaxError\<close> or return a tree.\<close>

datatype 'o parse_result = Raises_SyntaxError string string | Parsed "'o node"

subsection \<open>\<^verbatim>\<open>str.lower\<close>, \<^verbatim>\<open>str.upper\<close>, \<^verbatim>\<open>str.replace(" ", "_")\<close>\<close>

definition lower_char :: "char \<Rightarrow> char" where
  "lower_char c =
     (if 65 \<le> (of_char c :: nat) \<and> (of_char c :: nat) \<le> 90
      then (case c of Char b0 b1 b2 b3 b4 b5 b6 b7 \<Rightarrow> Char b0 b1 b2 b3 b4 True b6 b7)
      else c)"

definition upper_char :: "char \<Rightarrow> char" where
  "upper_char c =
     (if 97 \<le> (of_char c :: nat) \<and> (of_char c :: nat) \<le> 122
      then (case c of Char b0 b1 b2 b3 b4 b5 b6 b7 \<Rightarrow> Char b0 b1 b2 b3 b4 False b6 b7)
      else c)"

definition lower :: "string \<Rightarrow> string" where
  "lower s = map lower_char s"

definition upper :: "string \<Rightarrow> string" where
  "upper s = map upper_char s"

definition replace_space :: "string \<Rightarrow> string" where
  "replace_space s = map (\<lambda>c. if c = CHR '' '' then CHR ''_'' else c) s"

section \<open>The tables\<close>

text \<open>The lambdas of \<^verbatim>\<open>SAFE_OPERATORS\<close> (\<^verbatim>\<open>all(args)\<close>, \<^verbatim>\<open>any(args)\<close>).\<close>

definition fn_And :: "'o runtime \<Rightarrow> 'o callable" where
  "fn_And rt args = Inr (VBool (list_all (truthy rt) args))"

definition fn_Or :: "'o runtime \<Rightarrow> 'o callable" where
  "fn_Or rt args = Inr (VBool (list_ex (truthy rt) args))"

definition SAFE_OPERATORS :: "'o runtime \<Rightarrow> optype \<rightharpoonup> 'o callable" where
  "SAFE_OPERATORS rt =
     [Add \<mapsto> operator_add rt,
      Sub \<mapsto> operator_sub rt,
      Mult \<mapsto> operator_mul rt,
      Div \<mapsto> operator_truediv rt,
      Pow_op \<mapsto> operator_pow rt,
      Mod \<mapsto> operator_mod rt,
      USub \<mapsto> operator_neg rt,
      UAdd \<mapsto> operator_pos rt,
      Gt \<mapsto> operator_gt rt,
      Lt \<mapsto> operator_lt rt,
      GtE \<mapsto> operator_ge rt,
      LtE \<mapsto> operator_le rt,
      Eq \<mapsto> operator_eq rt,
      NotEq \<mapsto> operator_ne rt,
      And \<mapsto> fn_And rt,
      Or \<mapsto> fn_Or rt,
      Not_op \<mapsto> operator_not rt]"

text \<open>The lambdas of \<^verbatim>\<open>SAFE_FUNCTIONS\<close>.\<close>

definition fn_AVG :: "'o runtime \<Rightarrow> 'o callable" where
  "fn_AVG rt args =
     (if args \<noteq> [] then
        (case sum_items rt (VInt 0) args of
           Inl e \<Rightarrow> Inl e
         | Inr s \<Rightarrow> operator_truediv rt [s, VInt (int (length args))])
      else Inr (VInt 0))"

fun fn_IF :: "'o runtime \<Rightarrow> 'o callable" where
  "fn_IF rt [cond, true_val, false_val] = Inr (if truthy rt cond then true_val else false_val)"
| "fn_IF rt _ = arity_error ''<lambda>''"

definition fn_COALESCE :: "'o callable" where
  "fn_COALESCE args = Inr (case find (\<lambda>a. \<not> is_None a) args of Some a \<Rightarrow> a | None \<Rightarrow> VNone)"

fun fn_ISNULL :: "'o callable" where
  "fn_ISNULL [x] = Inr (VBool (is_None x))"
| "fn_ISNULL _ = arity_error ''<lambda>''"

fun fn_NULLIF :: "'o runtime \<Rightarrow> 'o callable" where
  "fn_NULLIF rt [a, b] =
     (case operator_eq rt [a, b] of
        Inl e \<Rightarrow> Inl e
      | Inr r \<Rightarrow> Inr (if truthy rt r then VNone else a))"
| "fn_NULLIF rt _ = arity_error ''<lambda>''"

definition SAFE_FUNCTIONS :: "'o runtime \<Rightarrow> string \<rightharpoonup> 'o callable" where
  "SAFE_FUNCTIONS rt =
     [''SQRT'' \<mapsto> math_sqrt rt,
      ''ABS'' \<mapsto> builtin_abs rt,
      ''MAX'' \<mapsto> builtin_max rt,
      ''MIN'' \<mapsto> builtin_min rt,
      ''AVG'' \<mapsto> fn_AVG rt,
      ''SUM'' \<mapsto> builtin_sum rt,
      ''POW'' \<mapsto> builtin_pow rt,
      ''LOG'' \<mapsto> math_log rt,
      ''LOG10'' \<mapsto> math_log10 rt,
      ''EXP'' \<mapsto> math_exp rt,
      ''ROUND'' \<mapsto> builtin_round rt,
      ''FLOOR'' \<mapsto> math_floor rt,
      ''CEIL'' \<mapsto> math_ceil rt,
      ''IF'' \<mapsto> fn_IF rt,
      ''COALESCE'' \<mapsto> fn_COALESCE,
      ''ISNULL'' \<mapsto> fn_ISNULL,
      ''NULLIF'' \<mapsto> fn_NULLIF rt]"

definition FUNDAMENTALS_FIELDS :: "string set" where
  "FUNDAMENTALS_FIELDS =
     {''ticker'', ''as_of'', ''ebit'', ''enterprise_value'', ''net_working_capital'',
      ''revenue'', ''revenue_growth_yoy'', ''gross_margin'', ''operating_margin'',
      ''net_margin'', ''free_cash_flow'', ''fcf_yield'', ''total_debt'', ''total_equity'',
      ''debt_to_equity'', ''interest_coverage'', ''book_value'', ''tangible_book_value'',
      ''book_value_per_share'', ''market_cap'', ''price'', ''shares_outstanding'',
      ''pe_ratio'', ''pb_ratio'', ''ps_ratio'', ''ev_to_ebitda'', ''dividend_yield'',
      ''payout_ratio'', ''eps'', ''eps_growth_yoy''}"

section \<open>The engine\<close>

record 'o FormulaResult =
  fr_value :: "'o pyval"
  fr_error :: "string option"
  fr_fields_used :: "string list"

text \<open>
  \<^verbatim>\<open>list(set(fields_used))\<close> lists the distinct elements in an order that Python does not
  fix; the two lists of a \<open>ValidationResult\<close> are kept as the sets of their elements.
\<close>

record ValidationResult =
  vr_is_valid :: bool
  vr_errors :: "string list"
  vr_fields_used :: "string set"
  vr_functions_used :: "string set"

record 'o FormulaEngine =
  self_functions :: "string \<rightharpoonup> 'o callable"
  self_computed_cache :: "string \<rightharpoonup> real"

text \<open>\<^verbatim>\<open>FormulaEngine.__init__\<close>\<close>

definition FormulaEngine_init :: "'o runtime \<Rightarrow> (string \<rightharpoonup> 'o callable) option \<Rightarrow> 'o FormulaEngine" where
  "FormulaEngine_init rt additional_functions =
     \<lparr>self_functions = (case additional_functions of
                     None \<Rightarrow> SAFE_FUNCTIONS rt
                   | Some extra \<Rightarrow> SAFE_FUNCTIONS rt ++ extra),
      self_computed_cache = Map.empty\<rparr>"

subsection \<open>\<^verbatim>\<open>_validate_node\<close> and \<^verbatim>\<open>validate\<close>\<close>

text \<open>
  The three lists that \<^verbatim>\<open>_validate_node\<close> appends to (\<^verbatim>\<open>errors\<close>, \<^verbatim>\<open>fields\<close>, \<^verbatim>\<open>funcs\<close>) are
  passed in and returned. \<open>validate_compare\<close> is the loop over
  \<^verbatim>\<open>zip(node.ops, node.comparators)\<close>, \<open>validate_each\<close> the loop over \<^verbatim>\<open>node.values\<close> or
  \<^verbatim>\<open>node.args\<close>.
\<close>

type_synonym vstate = "string list \<times> string list \<times> string list"

function validate_node :: "'o runtime \<Rightarrow> 'o FormulaEngine \<Rightarrow> 'o node \<Rightarrow> vstate \<Rightarrow> vstate"
  and validate_compare :: "'o runtime \<Rightarrow> 'o FormulaEngine \<Rightarrow> optype list \<Rightarrow> 'o node list \<Rightarrow> vstate \<Rightarrow> vstate"
  and validate_each :: "'o runtime \<Rightarrow> 'o FormulaEngine \<Rightarrow> 'o node list \<Rightarrow> vstate \<Rightarrow> vstate"
where
  "validate_node rt self (Constant v) st =
     (case st of (errors, flds, funcs) \<Rightarrow>
        (case v of
           VObj x \<Rightarrow>
             (errors @ [''Unsupported constant type: <class '' @ quoted (obj_type rt x) @ ''>''],
              flds, funcs)
         | _ \<Rightarrow> (errors, flds, funcs)))"
| "validate_node rt self (Name ident) st =
     (case st of (errors, flds, funcs) \<Rightarrow>
        (let name = lower ident;
             flds = (if name \<notin> FUNDAMENTALS_FIELDS \<and> name \<notin> dom (self_computed_cache self)
                     then flds else flds)
         in (errors, flds @ [name], funcs)))"
| "validate_node rt self (BinOp left op right) st =
     (case st of (errors, flds, funcs) \<Rightarrow>
        (let errors = (if op \<notin> dom (SAFE_OPERATORS rt)
                       then errors @ [''Unsupported operator: '' @ op_name op] else errors)
         in validate_node rt self right (validate_node rt self left (errors, flds, funcs))))"
| "validate_node rt self (UnaryOp op operand) st =
     (case st of (errors, flds, funcs) \<Rightarrow>
        (let errors = (if op \<notin> dom (SAFE_OPERATORS rt)
                       then errors @ [''Unsupported unary operator: '' @ op_name op] else errors)
         in validate_node rt self operand (errors, flds, funcs)))"
| "validate_node rt self (Compare left ops comparators) st =
     validate_compare rt self ops comparators (validate_node rt self left st)"
| "validate_node rt self (BoolOp op vals) st = validate_each rt self vals st"
| "validate_node rt self (Call func args) st =
     (case st of (errors, flds, funcs) \<Rightarrow>
        (case func of
           Name ident \<Rightarrow>
             (let func_name = upper ident;
                  errors = (if func_name \<notin> dom (self_functions self)
                            then errors @ [''Unknown function: '' @ func_name] else errors)
              in validate_each rt self args (errors, flds, funcs @ [func_name]))
         | _ \<Rightarrow> (errors @ [''Only simple function calls are supported''], flds, funcs)))"
| "validate_node rt self (IfExp test body orelse) st =
     validate_node rt self orelse (validate_node rt self body (validate_node rt self test st))"
| "validate_node rt self (OtherNode cls) st =
     (case st of (errors, flds, funcs) \<Rightarrow>
        (errors @ [''Unsupported expression type: '' @ cls], flds, funcs))"
| "validate_compare rt self [] comparators st = st"
| "validate_compare rt self (op # ops) [] st = st"
| "validate_compare rt self (op # ops) (comparator # comparators) st =
     (case st of (errors, flds, funcs) \<Rightarrow>
        (let errors = (if op \<notin> dom (SAFE_OPERATORS rt)
                       then errors @ [''Unsupported comparison: '' @ op_name op] else errors)
         in validate_compare rt self ops comparators
              (validate_node rt self comparator (errors, flds, funcs))))"
| "validate_each rt self [] st = st"
| "validate_each rt self (n # ns) st = validate_each rt self ns (validate_node rt self n st)"
  by pat_completeness auto

termination
  by (relation "measure (\<lambda>x. case x of
         Inl (rt, self, n, st) \<Rightarrow> size n
       | Inr (Inl (rt, self, ops, ns, st)) \<Rightarrow> size_list size ns
       | Inr (Inr (rt, self, ns, st)) \<Rightarrow> size_list size ns)") auto

definition validate :: "'o runtime \<Rightarrow> 'o FormulaEngine \<Rightarrow> 'o parse_result \<Rightarrow> ValidationResult" where
  "validate rt self parsed =
     (case (case parsed of
              Parsed tree \<Rightarrow> validate_node rt self tree ([], [], [])
            | Raises_SyntaxError msg detail \<Rightarrow> ([''Syntax error: '' @ msg], [], []))
      of (errors, fields_used, functions_used) \<Rightarrow>
        \<lparr>vr_is_valid = (length errors = 0),
         vr_errors = errors,
         vr_fields_used = set fields_used,
         vr_functions_used = set functions_used\<rparr>)"


subsection \<open>\<^verbatim>\<open>_eval_node\<close>\<close>

text \<open>
  \<^verbatim>\<open>_eval_node\<close> returns a value or raises, and appends to the list \<^verbatim>\<open>fields_used\<close> on the
  way; the list is passed in and returned, also when an exception is raised.
  \<open>eval_compare\<close> is the loop over \<^verbatim>\<open>zip(node.ops, node.comparators)\<close> with the
  current \<^verbatim>\<open>left\<close>; \<open>eval_and\<close> and \<open>eval_or\<close> are the two loops over \<^verbatim>\<open>node.values\<close>;
  \<open>eval_args\<close> is the list comprehension over \<^verbatim>\<open>node.args\<close>.
\<close>

type_synonym 'o value_context = "string \<rightharpoonup> 'o pyval"

text \<open>\<^verbatim>\<open>type(node).__name__\<close>\<close>

fun node_class :: "'o node \<Rightarrow> string" where
  "node_class (Constant _) = ''Constant''"
| "node_class (Name _) = ''Name''"
| "node_class (BinOp _ _ _) = ''BinOp''"
| "node_class (UnaryOp _ _) = ''UnaryOp''"
| "node_class (Compare _ _ _) = ''Compare''"
| "node_class (BoolOp _ _) = ''BoolOp''"
| "node_class (Call _ _) = ''Call''"
| "node_class (IfExp _ _ _) = ''IfExp''"
| "node_class (OtherNode cls) = cls"

function eval_node :: "'o runtime \<Rightarrow> 'o FormulaEngine \<Rightarrow> 'o value_context \<Rightarrow> 'o node \<Rightarrow> string list
      \<Rightarrow> (exn + 'o pyval) \<times> string list"
  and eval_compare :: "'o runtime \<Rightarrow> 'o FormulaEngine \<Rightarrow> 'o value_context \<Rightarrow> 'o pyval \<Rightarrow> optype list
      \<Rightarrow> 'o node list \<Rightarrow> string list \<Rightarrow> (exn + 'o pyval) \<times> string list"
  and eval_and :: "'o runtime \<Rightarrow> 'o FormulaEngine \<Rightarrow> 'o value_context \<Rightarrow> 'o node list \<Rightarrow> string list
      \<Rightarrow> (exn + 'o pyval) \<times> string list"
  and eval_or :: "'o runtime \<Rightarrow> 'o FormulaEngine \<Rightarrow> 'o value_context \<Rightarrow> 'o node list \<Rightarrow> string list
      \<Rightarrow> (exn + 'o pyval) \<times> string list"
  and eval_args :: "'o runtime \<Rightarrow> 'o FormulaEngine \<Rightarrow> 'o value_context \<Rightarrow> 'o node list \<Rightarrow> string list
      \<Rightarrow> (exn + 'o pyval list) \<times> string list"
where
  "eval_node rt self ctxt (Constant v) fields_used = (Inr v, fields_used)"
| "eval_node rt self ctxt (Name ident) fields_used =
     (let name = lower ident;
          fields_used = fields_used @ [name]
      in case ctxt name of
           None \<Rightarrow> (Inl (KeyError (KeyStr name)), fields_used)
         | Some v \<Rightarrow> (Inr v, fields_used))"
| "eval_node rt self ctxt (BinOp l op r) fields_used =
     (case eval_node rt self ctxt l fields_used of
        (Inl e, fu) \<Rightarrow> (Inl e, fu)
      | (Inr left, fu) \<Rightarrow>
          (case eval_node rt self ctxt r fu of
             (Inl e, fu) \<Rightarrow> (Inl e, fu)
           | (Inr right, fu) \<Rightarrow>
               (if is_None left \<or> is_None right then (Inr VNone, fu)
                else (case SAFE_OPERATORS rt op of
                        None \<Rightarrow> (Inl (KeyError (KeyType (op_name op))), fu)
                      | Some op_func \<Rightarrow> (op_func [left, right], fu)))))"
| "eval_node rt self ctxt (UnaryOp op operand_node) fields_used =
     (case eval_node rt self ctxt operand_node fields_used of
        (Inl e, fu) \<Rightarrow> (Inl e, fu)
      | (Inr operand, fu) \<Rightarrow>
          (if is_None operand then (Inr VNone, fu)
           else (case SAFE_OPERATORS rt op of
                   None \<Rightarrow> (Inl (KeyError (KeyType (op_name op))), fu)
                 | Some op_func \<Rightarrow> (op_func [operand], fu))))"
| "eval_node rt self ctxt (Compare l ops comparators) fields_used =
     (case eval_node rt self ctxt l fields_used of
        (Inl e, fu) \<Rightarrow> (Inl e, fu)
      | (Inr left, fu) \<Rightarrow>
          (if is_None left then (Inr VNone, fu)
           else eval_compare rt self ctxt left ops comparators fu))"
| "eval_node rt self ctxt (BoolOp op vals) fields_used =
     (if op = And then eval_and rt self ctxt vals fields_used
      else if op = Or then eval_or rt self ctxt vals fields_used
      else (Inl (ValueError (''Cannot evaluate node type: BoolOp'')), fields_used))"
| "eval_node rt self ctxt (Call func args) fields_used =
     (case func of
        Name ident \<Rightarrow>
          (let func_name = upper ident
           in case self_functions self func_name of
                None \<Rightarrow> (Inl (KeyError (KeyStr func_name)), fields_used)
              | Some f \<Rightarrow>
                  (case eval_args rt self ctxt args fields_used of
                     (Inl e, fu) \<Rightarrow> (Inl e, fu)
                   | (Inr vals, fu) \<Rightarrow>
                       (if func_name \<in> set [''COALESCE'', ''IF'', ''ISNULL''] then (f vals, fu)
                        else if list_ex is_None vals then (Inr VNone, fu)
                        else (f vals, fu))))
      | _ \<Rightarrow>
          (Inl (AttributeError (quoted (node_class func) @ '' object has no attribute ''
                  @ quoted ''id'')), fields_used))"
| "eval_node rt self ctxt (IfExp test body orelse) fields_used =
     (case eval_node rt self ctxt test fields_used of
        (Inl e, fu) \<Rightarrow> (Inl e, fu)
      | (Inr t, fu) \<Rightarrow>
          (if truthy rt t then eval_node rt self ctxt body fu
           else eval_node rt self ctxt orelse fu))"
| "eval_node rt self ctxt (OtherNode cls) fields_used =
     (Inl (ValueError (''Cannot evaluate node type: '' @ cls)), fields_used)"
| "eval_compare rt self ctxt left [] comparators fields_used = (Inr (VBool True), fields_used)"
| "eval_compare rt self ctxt left (op # ops) [] fields_used = (Inr (VBool True), fields_used)"
| "eval_compare rt self ctxt left (op # ops) (comparator # comparators) fields_used =
     (case eval_node rt self ctxt comparator fields_used of
        (Inl e, fu) \<Rightarrow> (Inl e, fu)
      | (Inr right, fu) \<Rightarrow>
          (if is_None right then (Inr VNone, fu)
           else (case SAFE_OPERATORS rt op of
                   None \<Rightarrow> (Inl (KeyError (KeyType (op_name op))), fu)
                 | Some op_func \<Rightarrow>
                     (case op_func [left, right] of
                        Inl e \<Rightarrow> (Inl e, fu)
                      | Inr holds \<Rightarrow>
                          (if \<not> truthy rt holds then (Inr (VBool False), fu)
                           else eval_compare rt self ctxt right ops comparators fu)))))"
| "eval_and rt self ctxt [] fields_used = (Inr (VBool True), fields_used)"
| "eval_and rt self ctxt (v # vals) fields_used =
     (case eval_node rt self ctxt v fields_used of
        (Inl e, fu) \<Rightarrow> (Inl e, fu)
      | (Inr result, fu) \<Rightarrow>
          (if \<not> truthy rt result then (Inr (VBool False), fu)
           else eval_and rt self ctxt vals fu))"
| "eval_or rt self ctxt [] fields_used = (Inr (VBool False), fields_used)"
| "eval_or rt self ctxt (v # vals) fields_used =
     (case eval_node rt self ctxt v fields_used of
        (Inl e, fu) \<Rightarrow> (Inl e, fu)
      | (Inr result, fu) \<Rightarrow>
          (if truthy rt result then (Inr (VBool True), fu)
           else eval_or rt self ctxt vals fu))"
| "eval_args rt self ctxt [] fields_used = (Inr [], fields_used)"
| "eval_args rt self ctxt (arg # args) fields_used =
     (case eval_node rt self ctxt arg fields_used of
        (Inl e, fu) \<Rightarrow> (Inl e, fu)
      | (Inr v, fu) \<Rightarrow>
          (case eval_args rt self ctxt args fu of
             (Inl e, fu) \<Rightarrow> (Inl e, fu)
           | (Inr vs, fu) \<Rightarrow> (Inr (v # vs), fu)))"
  by pat_completeness auto

termination
  by (relation "measure (\<lambda>x. case x of
         Inl (Inl (rt, self, ctxt, n, fu)) \<Rightarrow> size n
       | Inl (Inr (rt, self, ctxt, left, ops, ns, fu)) \<Rightarrow> size_list size ns
       | Inr (Inl (rt, self, ctxt, ns, fu)) \<Rightarrow> size_list size ns
       | Inr (Inr (Inl (rt, self, ctxt, ns, fu))) \<Rightarrow> size_list size ns
       | Inr (Inr (Inr (rt, self, ctxt, ns, fu))) \<Rightarrow> size_list size ns)") auto


subsection \<open>\<^verbatim>\<open>evaluate\<close>\<close>

text \<open>
  A Python \<^verbatim>\<open>dict\<close> is the list of its items in insertion order.
  \<open>dict_lower items\<close> is the comprehension \<^verbatim>\<open>{k.lower(): v for k, v in items}\<close>: a later
  item overwrites an earlier one with the same lower-cased key.
\<close>

type_synonym 'o pydict = "(string \<times> 'o pyval) list"

definition dict_lower :: "'o pydict \<Rightarrow> 'o value_context" where
  "dict_lower items = map_of (rev (map (\<lambda>(k, v). (lower k, v)) items))"

definition build_context :: "'o pydict \<Rightarrow> 'o pydict option \<Rightarrow> 'o value_context" where
  "build_context data computed_fields =
     (let ctxt = dict_lower (filter (\<lambda>(k, v). \<not> is_None v) data)
      in case computed_fields of
           None \<Rightarrow> ctxt
         | Some cf \<Rightarrow> (if cf \<noteq> [] then ctxt ++ dict_lower cf else ctxt))"

text \<open>The four \<^verbatim>\<open>except\<close> clauses of \<^verbatim>\<open>evaluate\<close>, in their order.\<close>

fun on_exception :: "exn \<Rightarrow> 'o FormulaResult" where
  "on_exception (ZeroDivisionError m) =
     \<lparr>fr_value = VNone, fr_error = Some ''Division by zero'', fr_fields_used = []\<rparr>"
| "on_exception (ValueError m) =
     \<lparr>fr_value = VNone, fr_error = Some (''Math error: '' @ m), fr_fields_used = []\<rparr>"
| "on_exception (KeyError k) =
     \<lparr>fr_value = VNone, fr_error = Some (''Missing field: '' @ repr_key k), fr_fields_used = []\<rparr>"
| "on_exception e =
     \<lparr>fr_value = VNone, fr_error = Some (''Evaluation error: '' @ exn_str e), fr_fields_used = []\<rparr>"

definition evaluate :: "'o runtime \<Rightarrow> 'o FormulaEngine \<Rightarrow> 'o parse_result \<Rightarrow> 'o pydict
      \<Rightarrow> 'o pydict option \<Rightarrow> 'o FormulaResult" where
  "evaluate rt self parsed data computed_fields =
     (let ctxt = build_context data computed_fields
      in case parsed of
           Raises_SyntaxError msg detail \<Rightarrow> on_exception (SyntaxError msg detail)
         | Parsed tree \<Rightarrow>
             (case eval_node rt self ctxt tree [] of
                (Inr v, fields_used) \<Rightarrow>
                  \<lparr>fr_value = v, fr_error = None, fr_fields_used = fields_used\<rparr>
              | (Inl e, fields_used) \<Rightarrow> on_exception e))"

section \<open>\<^verbatim>\<open>compute_all_formulas\<close>\<close>

text \<open>
  The database is outside the module. The function reads it twice (the rows of
  \<^verbatim>\<open>formula_definitions\<close> as triples of id, name and expression, and the rows of
  \<^verbatim>\<open>fundamentals\<close>, each zipped with the column names into a dict) and writes to it with
  one \<^verbatim>\<open>INSERT ... ON CONFLICT DO UPDATE\<close> per computed value. The two readings are
  arguments here. What \<^verbatim>\<open>conn.execute\<close> does with an \<^verbatim>\<open>INSERT\<close> is an argument too, the
  connection: given the statements executed so far and the new one with its five
  parameters, it returns (\<open>None\<close>) or raises. The call is not guarded, so an exception
  of \<^verbatim>\<open>conn.execute\<close> leaves \<^verbatim>\<open>compute_all_formulas\<close>; the statements executed before stay
  executed, and they are collected in order.
\<close>

record 'o metric_write =
  mw_ticker :: "'o pyval"
  mw_as_of :: "'o pyval"
  mw_metric_name :: string
  mw_formula_id :: string
  mw_value :: "'o pyval"

type_synonym 'o connection = "'o metric_write list \<Rightarrow> 'o metric_write \<Rightarrow> exn option"

type_synonym 'o formula = "string \<times> string \<times> 'o parse_result"

text \<open>
  The inner loop, over the formulas, for one row: the state is \<^verbatim>\<open>row_computed\<close>, the
  statements executed so far and \<^verbatim>\<open>computed_count\<close>; the loop ends normally (\<open>None\<close>) or
  with the exception of an \<^verbatim>\<open>INSERT\<close>.
\<close>

type_synonym 'o loop_state = "'o pydict \<times> 'o metric_write list \<times> nat"

fun compute_formulas :: "'o runtime \<Rightarrow> 'o connection \<Rightarrow> 'o FormulaEngine \<Rightarrow> 'o pydict \<Rightarrow> 'o pyval
      \<Rightarrow> 'o pyval \<Rightarrow> 'o formula list \<Rightarrow> 'o loop_state \<Rightarrow> exn option \<times> 'o loop_state" where
  "compute_formulas rt conn engine data ticker as_of [] st = (None, st)"
| "compute_formulas rt conn engine data ticker as_of (formula # formulas) st =
     (case formula of (formula_id, formula_name, expression) \<Rightarrow>
      case st of (row_computed, writes, computed_count) \<Rightarrow>
        (let result = evaluate rt engine expression data (Some row_computed)
         in if \<not> is_None (fr_value result) then
              (let stmt = \<lparr>mw_ticker = ticker, mw_as_of = as_of, mw_metric_name = formula_name,
                            mw_formula_id = formula_id, mw_value = fr_value result\<rparr>
               in case conn writes stmt of
                    Some e \<Rightarrow> (Some e, st)
                  | None \<Rightarrow>
                      compute_formulas rt conn engine data ticker as_of formulas
                        (AList.update (replace_space (lower formula_name)) (fr_value result)
                           row_computed,
                         writes @ [stmt], computed_count + 1))
            else compute_formulas rt conn engine data ticker as_of formulas st))"

text \<open>
  The outer loop, over the rows. \<^verbatim>\<open>data["ticker"]\<close> and \<^verbatim>\<open>data["as_of"]\<close> raise
  \<^verbatim>\<open>KeyError\<close> on a row without the column.
\<close>

fun compute_rows :: "'o runtime \<Rightarrow> 'o connection \<Rightarrow> 'o FormulaEngine \<Rightarrow> 'o formula list
      \<Rightarrow> 'o pydict list \<Rightarrow> 'o metric_write list \<Rightarrow> nat \<Rightarrow> (exn + nat) \<times> 'o metric_write list" where
  "compute_rows rt conn engine formulas [] writes computed_count = (Inr computed_count, writes)"
| "compute_rows rt conn engine formulas (data # rows) writes computed_count =
     (case map_of data ''ticker'' of
        None \<Rightarrow> (Inl (KeyError (KeyStr ''ticker'')), writes)
      | Some ticker \<Rightarrow>
          (case map_of data ''as_of'' of
             None \<Rightarrow> (Inl (KeyError (KeyStr ''as_of'')), writes)
           | Some as_of \<Rightarrow>
               (case compute_formulas rt conn engine data ticker as_of formulas
                       ([], writes, computed_count)
                of (Some e, row_computed, writes', computed_count') \<Rightarrow> (Inl e, writes')
                 | (None, row_computed, writes', computed_count') \<Rightarrow>
                     compute_rows rt conn engine formulas rows writes' computed_count')))"

definition compute_all_formulas :: "'o runtime \<Rightarrow> 'o connection \<Rightarrow> 'o formula list \<Rightarrow> 'o pydict list
      \<Rightarrow> (exn + nat) \<times> 'o metric_write list" where
  "compute_all_formulas rt conn formulas rows =
     (let engine = FormulaEngine_init rt None;
          computed_count = 0
      in compute_rows rt conn engine formulas rows [] computed_count)"

section \<open>The batch computation in the words of the specification\<close>

text \<open>
  The definitions of this section do not come from the source. They say what the
  specification says of the batch computation, to be compared with
  \<^verbatim>\<open>compute_all_formulas\<close>: each formula of the list is evaluated for a record with the
  synthetic fields that the formulas before it in the list have produced for that record.

  \<open>synthetic_fields rt engine data earlier\<close> is the synthetic-field map of a record after
  the formulas \<open>earlier\<close>: each of them, in order, that evaluates to a non-null value is
  registered under its normalized name (lower-cased, spaces replaced by underscores).
  \<open>formula_value rt engine data earlier formula\<close> is the value of a formula for a record
  when the formulas \<open>earlier\<close> come before it. \<open>record_values\<close> lists, for one record, the
  formulas \<open>later\<close> that evaluate to a non-null value, in order, each as the triple of
  record key, formula (name and id) and value that is to be persisted. \<open>batch_values\<close>
  does so for every record in turn.
\<close>

definition register_value :: "'o runtime \<Rightarrow> 'o FormulaEngine \<Rightarrow> 'o pydict \<Rightarrow> 'o pydict \<Rightarrow> 'o formula
      \<Rightarrow> 'o pydict" where
  "register_value rt engine data synthetic formula =
     (case formula of (formula_id, formula_name, expression) \<Rightarrow>
        (let v = fr_value (evaluate rt engine expression data (Some synthetic))
         in if is_None v then synthetic
            else AList.update (replace_space (lower formula_name)) v synthetic))"

definition synthetic_fields :: "'o runtime \<Rightarrow> 'o FormulaEngine \<Rightarrow> 'o pydict \<Rightarrow> 'o formula list
      \<Rightarrow> 'o pydict" where
  "synthetic_fields rt engine data earlier = foldl (register_value rt engine data) [] earlier"

definition formula_value :: "'o runtime \<Rightarrow> 'o FormulaEngine \<Rightarrow> 'o pydict \<Rightarrow> 'o formula list
      \<Rightarrow> 'o formula \<Rightarrow> 'o pyval" where
  "formula_value rt engine data earlier formula =
     (case formula of (formula_id, formula_name, expression) \<Rightarrow>
        fr_value (evaluate rt engine expression data
                    (Some (synthetic_fields rt engine data earlier))))"

fun record_values :: "'o runtime \<Rightarrow> 'o FormulaEngine \<Rightarrow> 'o pydict \<Rightarrow> 'o pyval \<Rightarrow> 'o pyval
      \<Rightarrow> 'o formula list \<Rightarrow> 'o formula list \<Rightarrow> 'o metric_write list" where
  "record_values rt engine data ticker as_of earlier [] = []"
| "record_values rt engine data ticker as_of earlier (formula # later) =
     (let v = formula_value rt engine data earlier formula
      in (if is_None v then []
          else [\<lparr>mw_ticker = ticker, mw_as_of = as_of, mw_metric_name = fst (snd formula),
                  mw_formula_id = fst formula, mw_value = v\<rparr>])
         @ record_values rt engine data ticker as_of (earlier @ [formula]) later)"

definition batch_values :: "'o runtime \<Rightarrow> 'o FormulaEngine \<Rightarrow> 'o formula list \<Rightarrow> 'o pydict list
      \<Rightarrow> 'o metric_write list" where
  "batch_values rt engine formulas rows =
     concat (map (\<lambda>data.
        case (map_of data ''ticker'', map_of data ''as_of'') of
          (Some ticker, Some as_of) \<Rightarrow> record_values rt engine data ticker as_of [] formulas
        | _ \<Rightarrow> []) rows)"

section \<open>Sub-expressions that an evaluation reaches\<close>

text \<open>
  \<open>reaches rt self ctxt n fu m fu'\<close>: while \<^verbatim>\<open>_eval_node\<close> evaluates the node \<open>n\<close>, entered
  with the list \<^verbatim>\<open>fields_used\<close> equal to \<open>fu\<close>, it calls itself on the sub-node \<open>m\<close> with
  the list equal to \<open>fu'\<close>. The rules follow the control flow of \<^verbatim>\<open>_eval_node\<close>: the right
  operand of a \<^verbatim>\<open>BinOp\<close> is entered when the left one has returned, a comparator when the
  chain has held so far, an operand of \<^verbatim>\<open>and\<close> when all operands before it were truthy
  (of \<^verbatim>\<open>or\<close>: falsy), an argument when the function is registered and the arguments before
  it have returned, and the branch of a conditional that the test selects.
\<close>

inductive reaches :: "'o runtime \<Rightarrow> 'o FormulaEngine \<Rightarrow> 'o value_context \<Rightarrow> 'o node \<Rightarrow> string list
      \<Rightarrow> 'o node \<Rightarrow> string list \<Rightarrow> bool"
  and reaches_compare :: "'o runtime \<Rightarrow> 'o FormulaEngine \<Rightarrow> 'o value_context \<Rightarrow> 'o pyval \<Rightarrow> optype list
      \<Rightarrow> 'o node list \<Rightarrow> string list \<Rightarrow> 'o node \<Rightarrow> string list \<Rightarrow> bool"
  and reaches_and :: "'o runtime \<Rightarrow> 'o FormulaEngine \<Rightarrow> 'o value_context \<Rightarrow> 'o node list \<Rightarrow> string list
      \<Rightarrow> 'o node \<Rightarrow> string list \<Rightarrow> bool"
  and reaches_or :: "'o runtime \<Rightarrow> 'o FormulaEngine \<Rightarrow> 'o value_context \<Rightarrow> 'o node list \<Rightarrow> string list
      \<Rightarrow> 'o node \<Rightarrow> string list \<Rightarrow> bool"
  and reaches_args :: "'o runtime \<Rightarrow> 'o FormulaEngine \<Rightarrow> 'o value_context \<Rightarrow> 'o node list \<Rightarrow> string list
      \<Rightarrow> 'o node \<Rightarrow> string list \<Rightarrow> bool"
  for rt :: "'o runtime" and self :: "'o FormulaEngine" and ctxt :: "'o value_context"
where
  here: "reaches rt self ctxt n fu n fu"
| binop_left: "reaches rt self ctxt l fu m fu' \<Longrightarrow> reaches rt self ctxt (BinOp l op r) fu m fu'"
| binop_right: "eval_node rt self ctxt l fu = (Inr left, fu1) \<Longrightarrow> reaches rt self ctxt r fu1 m fu'
      \<Longrightarrow> reaches rt self ctxt (BinOp l op r) fu m fu'"
| unary_operand: "reaches rt self ctxt operand fu m fu' \<Longrightarrow> reaches rt self ctxt (UnaryOp op operand) fu m fu'"
| compare_left: "reaches rt self ctxt l fu m fu' \<Longrightarrow> reaches rt self ctxt (Compare l ops cs) fu m fu'"
| compare_chain: "eval_node rt self ctxt l fu = (Inr left, fu1) \<Longrightarrow> \<not> is_None left
      \<Longrightarrow> reaches_compare rt self ctxt left ops cs fu1 m fu'
      \<Longrightarrow> reaches rt self ctxt (Compare l ops cs) fu m fu'"
| boolop_and: "reaches_and rt self ctxt vals fu m fu' \<Longrightarrow> reaches rt self ctxt (BoolOp And vals) fu m fu'"
| boolop_or: "reaches_or rt self ctxt vals fu m fu' \<Longrightarrow> reaches rt self ctxt (BoolOp Or vals) fu m fu'"
| call_args: "self_functions self (upper ident) = Some f \<Longrightarrow> reaches_args rt self ctxt args fu m fu'
      \<Longrightarrow> reaches rt self ctxt (Call (Name ident) args) fu m fu'"
| ifexp_test: "reaches rt self ctxt test fu m fu' \<Longrightarrow> reaches rt self ctxt (IfExp test body orelse) fu m fu'"
| ifexp_body: "eval_node rt self ctxt test fu = (Inr t, fu1) \<Longrightarrow> truthy rt t
      \<Longrightarrow> reaches rt self ctxt body fu1 m fu'
      \<Longrightarrow> reaches rt self ctxt (IfExp test body orelse) fu m fu'"
| ifexp_orelse: "eval_node rt self ctxt test fu = (Inr t, fu1) \<Longrightarrow> \<not> truthy rt t
      \<Longrightarrow> reaches rt self ctxt orelse fu1 m fu'
      \<Longrightarrow> reaches rt self ctxt (IfExp test body orelse) fu m fu'"
| compare_head: "reaches rt self ctxt c fu m fu'
      \<Longrightarrow> reaches_compare rt self ctxt left (op # ops) (c # cs) fu m fu'"
| compare_next: "eval_node rt self ctxt c fu = (Inr right, fu1) \<Longrightarrow> \<not> is_None right
      \<Longrightarrow> SAFE_OPERATORS rt op = Some op_func \<Longrightarrow> op_func [left, right] = Inr holds
      \<Longrightarrow> truthy rt holds \<Longrightarrow> reaches_compare rt self ctxt right ops cs fu1 m fu'
      \<Longrightarrow> reaches_compare rt self ctxt left (op # ops) (c # cs) fu m fu'"
| and_head: "reaches rt self ctxt v fu m fu' \<Longrightarrow> reaches_and rt self ctxt (v # vals) fu m fu'"
| and_next: "eval_node rt self ctxt v fu = (Inr result, fu1) \<Longrightarrow> truthy rt result
      \<Longrightarrow> reaches_and rt self ctxt vals fu1 m fu' \<Longrightarrow> reaches_and rt self ctxt (v # vals) fu m fu'"
| or_head: "reaches rt self ctxt v fu m fu' \<Longrightarrow> reaches_or rt self ctxt (v # vals) fu m fu'"
| or_next: "eval_node rt self ctxt v fu = (Inr result, fu1) \<Longrightarrow> \<not> truthy rt result
      \<Longrightarrow> reaches_or rt self ctxt vals fu1 m fu' \<Longrightarrow> reaches_or rt self ctxt (v # vals) fu m fu'"
| args_head: "reaches rt self ctxt a fu m fu' \<Longrightarrow> reaches_args rt self ctxt (a # args) fu m fu'"
| args_next: "eval_node rt self ctxt a fu = (Inr v, fu1) \<Longrightarrow> reaches_args rt self ctxt args fu1 m fu'
      \<Longrightarrow> reaches_args rt self ctxt (a # args) fu m fu'"

code_pred (modes: i \<Rightarrow> i \<Rightarrow> i \<Rightarrow> i \<Rightarrow> i \<Rightarrow> o \<Rightarrow> o \<Rightarrow> bool) reaches .

text \<open>
  \<open>reaches_link rt self ctxt left ops cs fu left' op c fu'\<close>: the loop of a chained
  comparison, entered with \<open>left\<close> and the list \<open>fu\<close>, comes to compare \<open>left'\<close> with the
  comparator \<open>c\<close> under the operator \<open>op\<close>, the list being \<open>fu'\<close> before \<open>c\<close> is evaluated:
  all the links before this one have held.
\<close>

inductive reaches_link :: "'o runtime \<Rightarrow> 'o FormulaEngine \<Rightarrow> 'o value_context \<Rightarrow> 'o pyval \<Rightarrow> optype list
      \<Rightarrow> 'o node list \<Rightarrow> string list \<Rightarrow> 'o pyval \<Rightarrow> optype \<Rightarrow> 'o node \<Rightarrow> string list \<Rightarrow> bool"
  for rt :: "'o runtime" and self :: "'o FormulaEngine" and ctxt :: "'o value_context"
where
  first_link: "reaches_link rt self ctxt left (op # ops) (c # cs) fu left op c fu"
| next_link: "eval_node rt self ctxt c fu = (Inr right, fu1) \<Longrightarrow> \<not> is_None right
      \<Longrightarrow> SAFE_OPERATORS rt op = Some op_func \<Longrightarrow> op_func [left, right] = Inr holds
      \<Longrightarrow> truthy rt holds \<Longrightarrow> reaches_link rt self ctxt right ops cs fu1 left' op' c' fu'
      \<Longrightarrow> reaches_link rt self ctxt left (op # ops) (c # cs) fu left' op' c' fu'"

code_pred (modes: i \<Rightarrow> i \<Rightarrow> i \<Rightarrow> i \<Rightarrow> i \<Rightarrow> i \<Rightarrow> i \<Rightarrow> o \<Rightarrow> o \<Rightarrow> o \<Rightarrow> o \<Rightarrow> bool)
  reaches_link .

text \<open>
  The keys that \<^verbatim>\<open>compute_all_formulas\<close> puts into \<^verbatim>\<open>row_computed\<close> are distinct and already
  lower-cased.
\<close>

definition normalized_keys :: "'o pydict \<Rightarrow> bool" where
  "normalized_keys d \<longleftrightarrow> distinct (map fst d) \<and> list_all (\<lambda>k. lower k = k) (map fst d)"

text \<open>A runtime for values without opaque objects, for concrete instances.\<close>

definition plain_runtime :: "unit runtime" where
  "plain_runtime =
     \<lparr>obj_type = (\<lambda>_. ''object''), obj_truth = (\<lambda>_. True),
      obj_call = (\<lambda>name args. Inl (TypeError ''unsupported''))\<rparr>"

text \<open>
  Two connections, for concrete instances: one that executes every statement, and one
  whose \<^verbatim>\<open>value\<close> column takes numbers only, as the \<^verbatim>\<open>DOUBLE\<close> column of
  \<^verbatim>\<open>computed_metrics\<close>, and raises a conversion error on any other value.
\<close>

definition accepting_connection :: "unit connection" where
  "accepting_connection = (\<lambda>executed stmt. None)"

definition double_column :: "unit connection" where
  "double_column =
     (\<lambda>executed stmt.
        if as_num (mw_value stmt) = None
        then Some (OtherException ''ConversionException'' ''Could not convert value to DOUBLE'')
        else None)"

section \<open>Properties\<close>

lemmas table_defs = FormulaEngine_init_def SAFE_FUNCTIONS_def SAFE_OPERATORS_def
lemmas str_defs = upper_def upper_char_def lower_def lower_char_def replace_space_def

subsection \<open>Functions that receive nulls\<close>

text \<open>
  Claim C6. \<^verbatim>\<open>COALESCE\<close>, \<^verbatim>\<open>IF\<close> and \<^verbatim>\<open>ISNULL\<close> (in any letter case) are called with the
  evaluated arguments as they are, nulls included; in the default registry they are the
  three lambdas of \<^verbatim>\<open>SAFE_FUNCTIONS\<close>, and \<^verbatim>\<open>COALESCE(None, None, 5)\<close> evaluates to 5,
  \<^verbatim>\<open>ISNULL(None)\<close> to true, \<^verbatim>\<open>IF(True, 1, 2)\<close> to 1 and \<^verbatim>\<open>IF(False, 1, 2)\<close> to 2, whatever
  the data.
\<close>

theorem null_aware_functions_get_raw_arguments:
  "(\<forall>self ctxt ident f args fu vals fu'.
      upper ident \<in> set [''COALESCE'', ''IF'', ''ISNULL''] \<longrightarrow>
      self_functions self (upper ident) = Some f \<longrightarrow>
      eval_args rt self ctxt args fu = (Inr vals, fu') \<longrightarrow>
      eval_node rt self ctxt (Call (Name ident) args) fu = (f vals, fu'))
   \<and> self_functions (FormulaEngine_init rt None) ''COALESCE'' = Some fn_COALESCE
   \<and> self_functions (FormulaEngine_init rt None) ''IF'' = Some (fn_IF rt)
   \<and> self_functions (FormulaEngine_init rt None) ''ISNULL'' = Some fn_ISNULL
   \<and> evaluate rt (FormulaEngine_init rt None)
        (Parsed (Call (Name ''COALESCE'') [Constant VNone, Constant VNone, Constant (VInt 5)]))
        data cf
      = \<lparr>fr_value = VInt 5, fr_error = None, fr_fields_used = []\<rparr>
   \<and> evaluate rt (FormulaEngine_init rt None)
        (Parsed (Call (Name ''ISNULL'') [Constant VNone])) data cf
      = \<lparr>fr_value = VBool True, fr_error = None, fr_fields_used = []\<rparr>
   \<and> evaluate rt (FormulaEngine_init rt None)
        (Parsed (Call (Name ''IF'') [Constant (VBool True), Constant (VInt 1), Constant (VInt 2)]))
        data cf
      = \<lparr>fr_value = VInt 1, fr_error = None, fr_fields_used = []\<rparr>
   \<and> evaluate rt (FormulaEngine_init rt None)
        (Parsed (Call (Name ''IF'') [Constant (VBool False), Constant (VInt 1), Constant (VInt 2)]))
        data cf
      = \<lparr>fr_value = VInt 2, fr_error = None, fr_fields_used = []\<rparr>"
proof -
  have general: "\<forall>self ctxt ident f args fu vals fu'.
      upper ident \<in> set [''COALESCE'', ''IF'', ''ISNULL''] \<longrightarrow>
      self_functions self (upper ident) = Some f \<longrightarrow>
      eval_args rt self ctxt args fu = (Inr vals, fu') \<longrightarrow>
      eval_node rt self ctxt (Call (Name ident) args) fu = (f vals, fu')"
    by (simp add: Let_def)
  have tbl: "self_functions (FormulaEngine_init rt None) ''COALESCE'' = Some fn_COALESCE"
    "self_functions (FormulaEngine_init rt None) ''IF'' = Some (fn_IF rt)"
    "self_functions (FormulaEngine_init rt None) ''ISNULL'' = Some fn_ISNULL"
    by (simp_all add: table_defs)
  have ex1: "evaluate rt (FormulaEngine_init rt None)
        (Parsed (Call (Name ''COALESCE'') [Constant VNone, Constant VNone, Constant (VInt 5)]))
        data cf
      = \<lparr>fr_value = VInt 5, fr_error = None, fr_fields_used = []\<rparr>"
    by (simp add: evaluate_def Let_def tbl str_defs fn_COALESCE_def)
  have ex2: "evaluate rt (FormulaEngine_init rt None)
        (Parsed (Call (Name ''ISNULL'') [Constant VNone])) data cf
      = \<lparr>fr_value = VBool True, fr_error = None, fr_fields_used = []\<rparr>"
    by (simp add: evaluate_def Let_def tbl str_defs)
  have ex3: "evaluate rt (FormulaEngine_init rt None)
        (Parsed (Call (Name ''IF'') [Constant (VBool True), Constant (VInt 1), Constant (VInt 2)]))
        data cf
      = \<lparr>fr_value = VInt 1, fr_error = None, fr_fields_used = []\<rparr>"
    by (simp add: evaluate_def Let_def tbl str_defs)
  have ex4: "evaluate rt (FormulaEngine_init rt None)
        (Parsed (Call (Name ''IF'') [Constant (VBool False), Constant (VInt 1), Constant (VInt 2)]))
        data cf
      = \<lparr>fr_value = VInt 2, fr_error = None, fr_fields_used = []\<rparr>"
    by (simp add: evaluate_def Let_def tbl str_defs)
  from general tbl ex1 ex2 ex3 ex4 show ?thesis by blast
qed

theorem null_aware_functions_get_raw_arguments_witness:
  "upper ''coalesce'' \<in> set [''COALESCE'', ''IF'', ''ISNULL'']
   \<and> self_functions (FormulaEngine_init plain_runtime None) (upper ''coalesce'') = Some fn_COALESCE
   \<and> eval_args plain_runtime (FormulaEngine_init plain_runtime None) Map.empty
        [Constant VNone, Constant (VInt 7)] [] = (Inr [VNone, VInt 7], [])
   \<and> eval_node plain_runtime (FormulaEngine_init plain_runtime None) Map.empty
        (Call (Name ''coalesce'') [Constant VNone, Constant (VInt 7)]) [] = (Inr (VInt 7), [])"
proof -
  have h1: "upper ''coalesce'' \<in> set [''COALESCE'', ''IF'', ''ISNULL'']"
    by (simp add: str_defs)
  have h2: "self_functions (FormulaEngine_init plain_runtime None) (upper ''coalesce'') = Some fn_COALESCE"
    by (simp add: str_defs table_defs)
  have h3: "eval_args plain_runtime (FormulaEngine_init plain_runtime None) Map.empty
        [Constant VNone, Constant (VInt 7)] [] = (Inr [VNone, VInt 7], [])"
    by simp
  have "eval_node plain_runtime (FormulaEngine_init plain_runtime None) Map.empty
        (Call (Name ''coalesce'') [Constant VNone, Constant (VInt 7)]) [] = (fn_COALESCE [VNone, VInt 7], [])"
    using null_aware_functions_get_raw_arguments [of plain_runtime] h1 h2 h3 by blast
  then show ?thesis using h1 h2 h3 by (simp add: fn_COALESCE_def)
qed

subsection \<open>Validation of an unknown function\<close>

text \<open>
  Claim C7. Validating \<^verbatim>\<open>FOO(1,2)\<close>, which parses to a call of the name \<^verbatim>\<open>FOO\<close> on the
  constants 1 and 2, gives an invalid result whose only error is the unknown function,
  with \<^verbatim>\<open>FOO\<close> as the only function used and no field used.
\<close>

theorem validate_unknown_function:
  "validate rt (FormulaEngine_init rt None)
     (Parsed (Call (Name ''FOO'') [Constant (VInt 1), Constant (VInt 2)]))
   = \<lparr>vr_is_valid = False, vr_errors = [''Unknown function: FOO''],
      vr_fields_used = {}, vr_functions_used = {''FOO''}\<rparr>"
  by (simp add: validate_def table_defs str_defs Let_def)

subsection \<open>\<^verbatim>\<open>SUM\<close>, \<^verbatim>\<open>MAX\<close> and \<^verbatim>\<open>MIN\<close> on numbers\<close>

lemma numbers_are_not_objects: "\<forall>v\<in>set vals. as_num v \<noteq> None \<Longrightarrow> \<not> list_ex is_obj vals"
  by (induction vals) (auto elim: is_obj.elims)

lemma sum_core_raises: "\<exists>msg. sum_core rt vals = Inl (TypeError msg)"
  by (cases "(rt, vals)" rule: sum_core.cases) (auto simp: not_iterable_def)

lemma builtin_sum_numbers:
  "\<forall>v\<in>set vals. as_num v \<noteq> None \<Longrightarrow> \<exists>msg. builtin_sum rt vals = Inl (TypeError msg)"
  using sum_core_raises [of rt vals] numbers_are_not_objects [of vals]
  by (simp add: builtin_sum_def py_builtin_def)

lemma builtin_max_single:
  "as_num v \<noteq> None \<Longrightarrow> \<exists>msg. builtin_max rt [v] = Inl (TypeError msg)"
  by (cases v) (simp_all add: builtin_max_def py_builtin_def not_iterable_def)

lemma builtin_min_single:
  "as_num v \<noteq> None \<Longrightarrow> \<exists>msg. builtin_min rt [v] = Inl (TypeError msg)"
  by (cases v) (simp_all add: builtin_min_def py_builtin_def not_iterable_def)

lemma default_functions:
  "self_functions (FormulaEngine_init rt None) ''SUM'' = Some (builtin_sum rt)"
  "self_functions (FormulaEngine_init rt None) ''MAX'' = Some (builtin_max rt)"
  "self_functions (FormulaEngine_init rt None) ''MIN'' = Some (builtin_min rt)"
  "self_functions (FormulaEngine_init rt None) ''SQRT'' = Some (math_sqrt rt)"
  "self_functions (FormulaEngine_init rt None) ''LOG'' = Some (math_log rt)"
  "self_functions (FormulaEngine_init rt None) ''LOG10'' = Some (math_log10 rt)"
  by (simp_all add: table_defs)

lemma numbers_are_not_None: "\<forall>v\<in>set vals. as_num v \<noteq> None \<Longrightarrow> \<not> list_ex is_None vals"
  by (induction vals) (auto elim: is_None.elims)

lemma evaluate_call_raises:
  assumes "eval_args rt self (build_context data cf) args [] = (Inr vals, fu)"
    and "self_functions self (upper ident) = Some f"
    and "\<not> list_ex is_None vals"
    and "f vals = Inl e"
  shows "evaluate rt self (Parsed (Call (Name ident) args)) data cf = on_exception e"
  using assms by (simp add: evaluate_def Let_def)

text \<open>
  Claim C10. In the default registry \<^verbatim>\<open>SUM\<close> is Python's \<^verbatim>\<open>sum\<close>, which takes an iterable:
  a call of \<^verbatim>\<open>SUM\<close> whose arguments evaluate to two or more numbers returns no sum but a
  null value with an error that starts with \<^verbatim>\<open>Evaluation error: \<close>; so does a call of
  \<^verbatim>\<open>MAX\<close> or \<^verbatim>\<open>MIN\<close> whose single argument evaluates to a number. \<^verbatim>\<open>SUM(1, 2)\<close> gives the
  error \<^verbatim>\<open>Evaluation error: 'int' object is not iterable\<close>.
\<close>

theorem sum_max_min_raise_on_numbers:
  "(\<forall>ident args data cf vals fu.
      upper ident = ''SUM'' \<longrightarrow>
      eval_args rt (FormulaEngine_init rt None) (build_context data cf) args [] = (Inr vals, fu) \<longrightarrow>
      2 \<le> length vals \<longrightarrow> (\<forall>v\<in>set vals. as_num v \<noteq> None) \<longrightarrow>
      (\<exists>msg. evaluate rt (FormulaEngine_init rt None) (Parsed (Call (Name ident) args)) data cf
         = \<lparr>fr_value = VNone, fr_error = Some (''Evaluation error: '' @ msg), fr_fields_used = []\<rparr>))
   \<and> (\<forall>ident arg data cf v fu.
      upper ident = ''MAX'' \<or> upper ident = ''MIN'' \<longrightarrow>
      eval_node rt (FormulaEngine_init rt None) (build_context data cf) arg [] = (Inr v, fu) \<longrightarrow>
      as_num v \<noteq> None \<longrightarrow>
      (\<exists>msg. evaluate rt (FormulaEngine_init rt None) (Parsed (Call (Name ident) [arg])) data cf
         = \<lparr>fr_value = VNone, fr_error = Some (''Evaluation error: '' @ msg), fr_fields_used = []\<rparr>))
   \<and> evaluate rt (FormulaEngine_init rt None)
        (Parsed (Call (Name ''SUM'') [Constant (VInt 1), Constant (VInt 2)])) data cf
      = \<lparr>fr_value = VNone,
         fr_error = Some (''Evaluation error: '' @ quoted ''int'' @ '' object is not iterable''),
         fr_fields_used = []\<rparr>"
proof (intro conjI allI impI)
  fix ident args data cf vals fu
  assume u: "upper ident = ''SUM''"
    and ev: "eval_args rt (FormulaEngine_init rt None) (build_context data cf) args [] = (Inr vals, fu)"
    and "2 \<le> length vals" and num: "\<forall>v\<in>set vals. as_num v \<noteq> None"
  from builtin_sum_numbers [OF num] obtain msg where m: "builtin_sum rt vals = Inl (TypeError msg)"
    by blast
  have "evaluate rt (FormulaEngine_init rt None) (Parsed (Call (Name ident) args)) data cf
      = on_exception (TypeError msg)"
    using ev u m numbers_are_not_None [OF num]
    by (intro evaluate_call_raises [where f = "builtin_sum rt"]) (simp_all add: default_functions)
  then show "\<exists>msg. evaluate rt (FormulaEngine_init rt None) (Parsed (Call (Name ident) args)) data cf
         = \<lparr>fr_value = VNone, fr_error = Some (''Evaluation error: '' @ msg), fr_fields_used = []\<rparr>"
    by simp
next
  fix ident arg data cf v fu
  assume u: "upper ident = ''MAX'' \<or> upper ident = ''MIN''"
    and ev: "eval_node rt (FormulaEngine_init rt None) (build_context data cf) arg [] = (Inr v, fu)"
    and num: "as_num v \<noteq> None"
  from ev have eva: "eval_args rt (FormulaEngine_init rt None) (build_context data cf) [arg] [] = (Inr [v], fu)"
    by simp
  from num have nn: "\<not> list_ex is_None [v]" by (cases v) simp_all
  from u show "\<exists>msg. evaluate rt (FormulaEngine_init rt None) (Parsed (Call (Name ident) [arg])) data cf
         = \<lparr>fr_value = VNone, fr_error = Some (''Evaluation error: '' @ msg), fr_fields_used = []\<rparr>"
  proof
    assume mx: "upper ident = ''MAX''"
    from builtin_max_single [OF num] obtain msg where m: "builtin_max rt [v] = Inl (TypeError msg)"
      by blast
    have "evaluate rt (FormulaEngine_init rt None) (Parsed (Call (Name ident) [arg])) data cf
        = on_exception (TypeError msg)"
      using eva mx m nn
      by (intro evaluate_call_raises [where f = "builtin_max rt"]) (simp_all add: default_functions)
    then show ?thesis by simp
  next
    assume mn: "upper ident = ''MIN''"
    from builtin_min_single [OF num] obtain msg where m: "builtin_min rt [v] = Inl (TypeError msg)"
      by blast
    have "evaluate rt (FormulaEngine_init rt None) (Parsed (Call (Name ident) [arg])) data cf
        = on_exception (TypeError msg)"
      using eva mn m nn
      by (intro evaluate_call_raises [where f = "builtin_min rt"]) (simp_all add: default_functions)
    then show ?thesis by simp
  qed
next
  show "evaluate rt (FormulaEngine_init rt None)
        (Parsed (Call (Name ''SUM'') [Constant (VInt 1), Constant (VInt 2)])) data cf
      = \<lparr>fr_value = VNone,
         fr_error = Some (''Evaluation error: '' @ quoted ''int'' @ '' object is not iterable''),
         fr_fields_used = []\<rparr>"
    by (simp add: evaluate_def Let_def default_functions str_defs builtin_sum_def py_builtin_def
        not_iterable_def)
qed

theorem sum_max_min_raise_on_numbers_witness:
  "(\<exists>msg. evaluate plain_runtime (FormulaEngine_init plain_runtime None)
       (Parsed (Call (Name ''Sum'') [Constant (VInt 1), Constant (VFloat 2), Constant (VInt 3)])) [] None
      = \<lparr>fr_value = VNone, fr_error = Some (''Evaluation error: '' @ msg), fr_fields_used = []\<rparr>)
   \<and> (\<exists>msg. evaluate plain_runtime (FormulaEngine_init plain_runtime None)
       (Parsed (Call (Name ''max'') [Name ''price''])) [(''price'', VFloat 3)] None
      = \<lparr>fr_value = VNone, fr_error = Some (''Evaluation error: '' @ msg), fr_fields_used = []\<rparr>)"
proof -
  let ?eng = "FormulaEngine_init plain_runtime None"
  have a1: "upper ''Sum'' = ''SUM''" by (simp add: str_defs)
  have a2: "eval_args plain_runtime ?eng (build_context [] None)
      [Constant (VInt 1), Constant (VFloat 2), Constant (VInt 3)] [] = (Inr [VInt 1, VFloat 2, VInt 3], [])"
    by simp
  have a3: "2 \<le> length [VInt 1, VFloat 2, VInt 3 :: unit pyval]" by simp
  have a4: "\<forall>v\<in>set [VInt 1, VFloat 2, VInt 3 :: unit pyval]. as_num v \<noteq> None" by simp
  have b1: "upper ''max'' = ''MAX'' \<or> upper ''max'' = ''MIN''" by (simp add: str_defs)
  have b2: "eval_node plain_runtime ?eng (build_context [(''price'', VFloat 3)] None) (Name ''price'') []
      = (Inr (VFloat 3), [''price''])"
    by (simp add: build_context_def dict_lower_def str_defs Let_def)
  have b3: "as_num (VFloat 3 :: unit pyval) \<noteq> None" by simp
  note t = sum_max_min_raise_on_numbers [of plain_runtime]
  from t a1 a2 a3 a4 have c1: "\<exists>msg. evaluate plain_runtime ?eng
       (Parsed (Call (Name ''Sum'') [Constant (VInt 1), Constant (VFloat 2), Constant (VInt 3)])) [] None
      = \<lparr>fr_value = VNone, fr_error = Some (''Evaluation error: '' @ msg), fr_fields_used = []\<rparr>"
    by blast
  from t b1 b2 b3 have c2: "\<exists>msg. evaluate plain_runtime ?eng
       (Parsed (Call (Name ''max'') [Name ''price''])) [(''price'', VFloat 3)] None
      = \<lparr>fr_value = VNone, fr_error = Some (''Evaluation error: '' @ msg), fr_fields_used = []\<rparr>"
    by blast
  from c1 c2 show ?thesis by blast
qed

subsection \<open>The power operator\<close>

text \<open>
  Claim C2, evaluated at \<^verbatim>\<open>2 ^ 3\<close> and \<^verbatim>\<open>2 ** 3\<close>. Python parses \<^verbatim>\<open>2 ^ 3\<close> to a \<^verbatim>\<open>BinOp\<close>
  with the operator \<^verbatim>\<open>ast.BitXor\<close>, which \<^verbatim>\<open>SAFE_OPERATORS\<close> does not hold: validation
  reports an unsupported operator, and evaluation ends in the \<^verbatim>\<open>KeyError\<close> of the table
  lookup, reported as a missing field. \<^verbatim>\<open>2 ** 3\<close> validates and evaluates to 8.
\<close>

theorem caret_is_not_power:
  "validate rt (FormulaEngine_init rt None)
     (Parsed (BinOp (Constant (VInt 2)) BitXor (Constant (VInt 3))))
   = \<lparr>vr_is_valid = False, vr_errors = [''Unsupported operator: BitXor''],
      vr_fields_used = {}, vr_functions_used = {}\<rparr>
   \<and> evaluate rt (FormulaEngine_init rt None)
        (Parsed (BinOp (Constant (VInt 2)) BitXor (Constant (VInt 3)))) data cf
      = \<lparr>fr_value = VNone,
         fr_error = Some (''Missing field: <class '' @ quoted ''ast.BitXor'' @ ''>''),
         fr_fields_used = []\<rparr>
   \<and> validate rt (FormulaEngine_init rt None)
        (Parsed (BinOp (Constant (VInt 2)) Pow_op (Constant (VInt 3))))
      = \<lparr>vr_is_valid = True, vr_errors = [], vr_fields_used = {}, vr_functions_used = {}\<rparr>
   \<and> evaluate rt (FormulaEngine_init rt None)
        (Parsed (BinOp (Constant (VInt 2)) Pow_op (Constant (VInt 3)))) data cf
      = \<lparr>fr_value = VInt 8, fr_error = None, fr_fields_used = []\<rparr>"
  by (simp add: validate_def evaluate_def Let_def SAFE_OPERATORS_def operator_pow_def
      py_builtin_def)

subsection \<open>Exceptions become results\<close>

text \<open>Nothing in \<^verbatim>\<open>_eval_node\<close> catches: an exception raised at a reached sub-node is the outcome.\<close>

lemma exception_propagates_aux:
  "(reaches rt self ctxt n fu m fu' \<longrightarrow>
      (\<forall>e fu''. eval_node rt self ctxt m fu' = (Inl e, fu'') \<longrightarrow> eval_node rt self ctxt n fu = (Inl e, fu'')))
   \<and> (reaches_compare rt self ctxt left ops cs fu m fu' \<longrightarrow>
      (\<forall>e fu''. eval_node rt self ctxt m fu' = (Inl e, fu'') \<longrightarrow>
         eval_compare rt self ctxt left ops cs fu = (Inl e, fu'')))
   \<and> (reaches_and rt self ctxt vals fu m fu' \<longrightarrow>
      (\<forall>e fu''. eval_node rt self ctxt m fu' = (Inl e, fu'') \<longrightarrow>
         eval_and rt self ctxt vals fu = (Inl e, fu'')))
   \<and> (reaches_or rt self ctxt vals fu m fu' \<longrightarrow>
      (\<forall>e fu''. eval_node rt self ctxt m fu' = (Inl e, fu'') \<longrightarrow>
         eval_or rt self ctxt vals fu = (Inl e, fu'')))
   \<and> (reaches_args rt self ctxt args fu m fu' \<longrightarrow>
      (\<forall>e fu''. eval_node rt self ctxt m fu' = (Inl e, fu'') \<longrightarrow>
         eval_args rt self ctxt args fu = (Inl e, fu'')))"
  apply (rule reaches_reaches_compare_reaches_and_reaches_or_reaches_args.induct)
  apply (simp_all add: Let_def)
  done

lemma exception_propagates:
  "reaches rt self ctxt n fu m fu' \<Longrightarrow> eval_node rt self ctxt m fu' = (Inl e, fu'')
     \<Longrightarrow> eval_node rt self ctxt n fu = (Inl e, fu'')"
  using exception_propagates_aux [of rt self ctxt n fu m fu'] by blast

lemma evaluate_reached_exception:
  "reaches rt self (build_context data cf) tree [] m fu
     \<Longrightarrow> eval_node rt self (build_context data cf) m fu = (Inl e, fu')
     \<Longrightarrow> evaluate rt self (Parsed tree) data cf = on_exception e"
  using exception_propagates [of rt self "build_context data cf" tree "[]" m fu e fu']
  by (simp add: evaluate_def Let_def)

lemma on_exception_shape:
  "fr_value (on_exception e :: 'o FormulaResult) = VNone
   \<and> (\<exists>msg. fr_error (on_exception e :: 'o FormulaResult) = Some msg \<and> msg \<noteq> [])
   \<and> fr_fields_used (on_exception e :: 'o FormulaResult) = []"
  by (cases e) simp_all

lemma num_not_None: "as_num x = Some n \<Longrightarrow> \<not> is_None x"
  by (cases x) simp_all

lemma num_not_obj: "as_num x = Some n \<Longrightarrow> \<not> is_obj x"
  by (cases x) simp_all

lemma binop_raises:
  "eval_node rt self ctxt a fu = (Inr x, fu1) \<Longrightarrow> eval_node rt self ctxt b fu1 = (Inr y, fu2)
     \<Longrightarrow> \<not> is_None x \<Longrightarrow> \<not> is_None y \<Longrightarrow> SAFE_OPERATORS rt op = Some f \<Longrightarrow> f [x, y] = Inl e
     \<Longrightarrow> eval_node rt self ctxt (BinOp a op b) fu = (Inl e, fu2)"
  by simp

lemma call1_raises:
  "eval_node rt self ctxt arg fu = (Inr x, fu1) \<Longrightarrow> \<not> is_None x
     \<Longrightarrow> self_functions self (upper ident) = Some f \<Longrightarrow> f [x] = Inl e
     \<Longrightarrow> eval_node rt self ctxt (Call (Name ident) [arg]) fu = (Inl e, fu1)"
  by (simp add: Let_def)

lemma safe_operators_div_mod:
  "SAFE_OPERATORS rt Div = Some (operator_truediv rt)"
  "SAFE_OPERATORS rt Mod = Some (operator_mod rt)"
  by (simp_all add: SAFE_OPERATORS_def)

text \<open>
  Division and modulo by zero, and the math functions outside their domain. An \<^verbatim>\<open>int\<close> that
  takes part in a float operation is converted first, and the conversion raises
  \<^verbatim>\<open>OverflowError\<close> when the \<^verbatim>\<open>int\<close> is too large; \<^verbatim>\<open>int / int\<close> and \<^verbatim>\<open>int % int\<close> check the
  divisor before anything is converted.
\<close>

lemma float_limit_pos: "0 < float_limit"
proof -
  have "(2::real) ^ 970 < 2 ^ 1024" by (rule power_strict_increasing) simp_all
  then show ?thesis by (simp add: float_limit_def)
qed

lemma float_limit_below: "float_limit < 2 ^ 1024"
  by (simp add: float_limit_def)

lemma to_float_fits: "fits_float x \<Longrightarrow> to_float x = Inr (to_real x)"
  by (simp add: to_float_def)

lemma to_float_too_large:
  "\<not> fits_float x \<Longrightarrow> to_float x = Inl (OverflowError ''int too large to convert to float'')"
  by (simp add: to_float_def)

lemma zero_fits: "to_real n = 0 \<Longrightarrow> fits_float n"
  by (cases n) (simp_all add: float_limit_pos)

lemma truediv_by_zero:
  assumes "as_num x = Some nx" and "as_num y = Some ny" and "to_real ny = 0"
  shows "operator_truediv rt [x, y]
     = (if (\<exists>i. ny = I i \<and> (\<exists>j. nx = I j)) \<or> fits_float nx
        then Inl (ZeroDivisionError (if (\<exists>i. ny = I i) \<and> (\<exists>j. nx = I j)
                                      then ''division by zero'' else ''float division by zero''))
        else Inl (OverflowError ''int too large to convert to float''))"
  using assms zero_fits [OF assms(3)]
  by (cases nx; cases ny)
     (simp_all add: operator_truediv_def py_builtin_def num_not_obj to_float_def)

lemma mod_by_zero:
  assumes "as_num x = Some nx" and "as_num y = Some ny" and "to_real ny = 0"
  shows "operator_mod rt [x, y]
     = (if (\<exists>i. ny = I i \<and> (\<exists>j. nx = I j)) \<or> fits_float nx
        then Inl (ZeroDivisionError (if (\<exists>i. ny = I i) \<and> (\<exists>j. nx = I j)
                                      then ''integer division or modulo by zero'' else ''float modulo''))
        else Inl (OverflowError ''int too large to convert to float''))"
  using assms zero_fits [OF assms(3)]
  by (cases nx; cases ny)
     (simp_all add: operator_mod_def py_builtin_def num_not_obj to_float_def)

lemma sqrt_of_negative:
  assumes "as_num x = Some nx" and "to_real nx < 0"
  shows "math_sqrt rt [x]
     = (if fits_float nx then Inl (ValueError ''math domain error'')
        else Inl (OverflowError ''int too large to convert to float''))"
  using assms by (simp add: math_sqrt_def py_builtin_def num_not_obj to_float_def)

lemma log_of_nonpositive:
  "as_num x = Some nx \<Longrightarrow> to_real nx \<le> 0
     \<Longrightarrow> math_log rt [x] = Inl (ValueError ''math domain error'')
       \<and> math_log10 rt [x] = Inl (ValueError ''math domain error'')"
  by (simp add: math_log_def math_log10_def py_builtin_def num_not_obj log_helper_def)

text \<open>
  Claim C3. No exception leaves \<^verbatim>\<open>evaluate\<close>: whenever the walk raises, the result has a
  null value and a non-empty error message (and so it has when the parser raises). In particular, for every expression whose
  evaluation reaches a division (or a modulo) whose operands evaluate to numbers, the
  divisor being zero, the result is null with a non-empty error message: the message is
  \<^verbatim>\<open>Division by zero\<close>, unless the dividend is an integer too large for a float and the
  operation is a float one, where the conversion raises \<^verbatim>\<open>OverflowError\<close> first and the
  message is \<^verbatim>\<open>Evaluation error: int too large to convert to float\<close>. With the
  default registry, for every expression whose evaluation reaches \<^verbatim>\<open>SQRT\<close> of a negative
  number the result is null with a non-empty error message, \<^verbatim>\<open>Math error: math domain error\<close>
  unless the number is an integer too large for a float (the same \<^verbatim>\<open>OverflowError\<close>); and
  for \<^verbatim>\<open>LOG\<close> or \<^verbatim>\<open>LOG10\<close> of zero (or of a negative number) the result is null with
  the error \<^verbatim>\<open>Math error: math domain error\<close>.

  A division is reached with its operands evaluated to numbers: a null operand ends the
  \<^verbatim>\<open>BinOp\<close> branch before the operator is applied (Claim C1), so nothing is divided there.
\<close>

theorem zero_division_and_domain_errors_are_results:
  "(\<forall>self tree data cf e fu.
      eval_node rt self (build_context data cf) tree [] = (Inl e, fu) \<longrightarrow>
      fr_value (evaluate rt self (Parsed tree) data cf) = VNone
      \<and> (\<exists>msg. fr_error (evaluate rt self (Parsed tree) data cf) = Some msg \<and> msg \<noteq> []))
   \<and> (\<forall>self tree data cf a op b fu x fu1 y fu2 nx ny.
      reaches rt self (build_context data cf) tree [] (BinOp a op b) fu \<longrightarrow>
      op = Div \<or> op = Mod \<longrightarrow>
      eval_node rt self (build_context data cf) a fu = (Inr x, fu1) \<longrightarrow>
      eval_node rt self (build_context data cf) b fu1 = (Inr y, fu2) \<longrightarrow>
      as_num x = Some nx \<longrightarrow> as_num y = Some ny \<longrightarrow> to_real ny = 0 \<longrightarrow>
      fr_value (evaluate rt self (Parsed tree) data cf) = VNone
      \<and> (\<exists>msg. fr_error (evaluate rt self (Parsed tree) data cf) = Some msg \<and> msg \<noteq> [])
      \<and> evaluate rt self (Parsed tree) data cf
        = (if (\<exists>i j. nx = I i \<and> ny = I j) \<or> fits_float nx
           then \<lparr>fr_value = VNone, fr_error = Some ''Division by zero'', fr_fields_used = []\<rparr>
           else \<lparr>fr_value = VNone,
                 fr_error = Some ''Evaluation error: int too large to convert to float'',
                 fr_fields_used = []\<rparr>))
   \<and> (\<forall>tree data cf ident arg fu x fu1 nx.
      reaches rt (FormulaEngine_init rt None) (build_context data cf) tree []
        (Call (Name ident) [arg]) fu \<longrightarrow>
      eval_node rt (FormulaEngine_init rt None) (build_context data cf) arg fu = (Inr x, fu1) \<longrightarrow>
      as_num x = Some nx \<longrightarrow>
      upper ident = ''SQRT'' \<longrightarrow> to_real nx < 0 \<longrightarrow>
      fr_value (evaluate rt (FormulaEngine_init rt None) (Parsed tree) data cf) = VNone
      \<and> (\<exists>msg. fr_error (evaluate rt (FormulaEngine_init rt None) (Parsed tree) data cf) = Some msg
            \<and> msg \<noteq> [])
      \<and> evaluate rt (FormulaEngine_init rt None) (Parsed tree) data cf
        = (if fits_float nx
           then \<lparr>fr_value = VNone, fr_error = Some ''Math error: math domain error'',
                 fr_fields_used = []\<rparr>
           else \<lparr>fr_value = VNone,
                 fr_error = Some ''Evaluation error: int too large to convert to float'',
                 fr_fields_used = []\<rparr>))
   \<and> (\<forall>tree data cf ident arg fu x fu1 nx.
      reaches rt (FormulaEngine_init rt None) (build_context data cf) tree []
        (Call (Name ident) [arg]) fu \<longrightarrow>
      eval_node rt (FormulaEngine_init rt None) (build_context data cf) arg fu = (Inr x, fu1) \<longrightarrow>
      as_num x = Some nx \<longrightarrow>
      upper ident = ''LOG'' \<or> upper ident = ''LOG10'' \<longrightarrow> to_real nx \<le> 0 \<longrightarrow>
      evaluate rt (FormulaEngine_init rt None) (Parsed tree) data cf
        = \<lparr>fr_value = VNone, fr_error = Some ''Math error: math domain error'',
           fr_fields_used = []\<rparr>)
   \<and> (\<forall>self msg detail data cf.
      evaluate rt self (Raises_SyntaxError msg detail) data cf
        = \<lparr>fr_value = VNone,
           fr_error = Some (''Evaluation error: '' @ msg @ '' ('' @ detail @ '')''),
           fr_fields_used = []\<rparr>)"
proof -
  have c1: "fr_value (evaluate rt self (Parsed tree) data cf) = VNone
      \<and> (\<exists>msg. fr_error (evaluate rt self (Parsed tree) data cf) = Some msg \<and> msg \<noteq> [])"
    if "eval_node rt self (build_context data cf) tree [] = (Inl e, fu)"
    for self :: "'a FormulaEngine" and tree data cf e fu
  proof -
    from that have "evaluate rt self (Parsed tree) data cf = on_exception e"
      by (simp add: evaluate_def Let_def)
    then show ?thesis by (simp add: on_exception_shape)
  qed
  have c2: "fr_value (evaluate rt self (Parsed tree) data cf) = VNone
      \<and> (\<exists>msg. fr_error (evaluate rt self (Parsed tree) data cf) = Some msg \<and> msg \<noteq> [])
      \<and> evaluate rt self (Parsed tree) data cf
        = (if (\<exists>i j. nx = I i \<and> ny = I j) \<or> fits_float nx
           then \<lparr>fr_value = VNone, fr_error = Some ''Division by zero'', fr_fields_used = []\<rparr>
           else \<lparr>fr_value = VNone,
                 fr_error = Some ''Evaluation error: int too large to convert to float'',
                 fr_fields_used = []\<rparr>)"
    if r: "reaches rt self (build_context data cf) tree [] (BinOp a op b) fu"
      and op: "op = Div \<or> op = Mod"
      and ea: "eval_node rt self (build_context data cf) a fu = (Inr x, fu1)"
      and eb: "eval_node rt self (build_context data cf) b fu1 = (Inr y, fu2)"
      and nx: "as_num x = Some nx" and ny: "as_num y = Some ny" and z: "to_real ny = 0"
    for self :: "'a FormulaEngine" and tree data cf a op b fu x fu1 y fu2 nx ny
  proof -
    let ?zero = "(\<exists>i j. nx = I i \<and> ny = I j) \<or> fits_float nx"
    from op obtain f e where f: "SAFE_OPERATORS rt op = Some f" "f [x, y] = Inl e"
      and e: "?zero \<longrightarrow> (\<exists>msg. e = ZeroDivisionError msg)"
        "\<not> ?zero \<longrightarrow> e = OverflowError ''int too large to convert to float''"
      using truediv_by_zero [OF nx ny z, of rt] mod_by_zero [OF nx ny z, of rt]
        safe_operators_div_mod [of rt]
      by (cases ?zero) auto
    have "eval_node rt self (build_context data cf) (BinOp a op b) fu = (Inl e, fu2)"
      by (rule binop_raises [OF ea eb num_not_None [OF nx] num_not_None [OF ny] f])
    from evaluate_reached_exception [OF r this]
    have ev: "evaluate rt self (Parsed tree) data cf = on_exception e" .
    from e have "on_exception e
        = (if ?zero
           then \<lparr>fr_value = VNone, fr_error = Some ''Division by zero'', fr_fields_used = []\<rparr>
           else \<lparr>fr_value = VNone,
                 fr_error = Some ''Evaluation error: int too large to convert to float'',
                 fr_fields_used = []\<rparr> :: 'a FormulaResult)"
      by (cases ?zero) auto
    with ev show ?thesis by (simp add: on_exception_shape)
  qed
  let ?eng = "FormulaEngine_init rt None"
  have c3: "fr_value (evaluate rt ?eng (Parsed tree) data cf) = VNone
      \<and> (\<exists>msg. fr_error (evaluate rt ?eng (Parsed tree) data cf) = Some msg \<and> msg \<noteq> [])
      \<and> evaluate rt ?eng (Parsed tree) data cf
        = (if fits_float nx
           then \<lparr>fr_value = VNone, fr_error = Some ''Math error: math domain error'',
                 fr_fields_used = []\<rparr>
           else \<lparr>fr_value = VNone,
                 fr_error = Some ''Evaluation error: int too large to convert to float'',
                 fr_fields_used = []\<rparr>)"
    if r: "reaches rt ?eng (build_context data cf) tree [] (Call (Name ident) [arg]) fu"
      and ea: "eval_node rt ?eng (build_context data cf) arg fu = (Inr x, fu1)"
      and nx: "as_num x = Some nx"
      and dom: "upper ident = ''SQRT''" "to_real nx < 0"
    for tree data cf ident arg fu x fu1 nx
  proof -
    let ?e = "if fits_float nx then ValueError ''math domain error''
              else OverflowError ''int too large to convert to float''"
    from dom have f: "self_functions ?eng (upper ident) = Some (math_sqrt rt)"
        "math_sqrt rt [x] = Inl ?e"
      using sqrt_of_negative [OF nx dom(2), of rt] default_functions [of rt]
      by auto
    have "eval_node rt ?eng (build_context data cf) (Call (Name ident) [arg]) fu = (Inl ?e, fu1)"
      by (rule call1_raises [OF ea num_not_None [OF nx] f])
    from evaluate_reached_exception [OF r this]
    have "evaluate rt ?eng (Parsed tree) data cf = on_exception ?e" .
    then show ?thesis by (simp add: on_exception_shape)
  qed
  have c4: "evaluate rt ?eng (Parsed tree) data cf
        = \<lparr>fr_value = VNone, fr_error = Some ''Math error: math domain error'',
           fr_fields_used = []\<rparr>"
    if r: "reaches rt ?eng (build_context data cf) tree [] (Call (Name ident) [arg]) fu"
      and ea: "eval_node rt ?eng (build_context data cf) arg fu = (Inr x, fu1)"
      and nx: "as_num x = Some nx"
      and dom: "upper ident = ''LOG'' \<or> upper ident = ''LOG10''" "to_real nx \<le> 0"
    for tree data cf ident arg fu x fu1 nx
  proof -
    from dom obtain f where f: "self_functions ?eng (upper ident) = Some f"
        "f [x] = Inl (ValueError ''math domain error'')"
      using log_of_nonpositive [OF nx dom(2), of rt] default_functions [of rt]
      by auto
    have "eval_node rt ?eng (build_context data cf) (Call (Name ident) [arg]) fu
        = (Inl (ValueError ''math domain error''), fu1)"
      by (rule call1_raises [OF ea num_not_None [OF nx] f])
    from evaluate_reached_exception [OF r this]
    show ?thesis by simp
  qed
  have c5: "evaluate rt self (Raises_SyntaxError msg detail) data cf
        = \<lparr>fr_value = VNone,
           fr_error = Some (''Evaluation error: '' @ msg @ '' ('' @ detail @ '')''),
           fr_fields_used = []\<rparr>"
    for self :: "'a FormulaEngine" and msg detail data cf
    by (simp add: evaluate_def)
  show ?thesis
    apply (intro conjI allI impI)
    subgoal by (rule c1 [THEN conjunct1])
    subgoal by (rule c1 [THEN conjunct2])
    subgoal by (rule c2 [THEN conjunct1])
    subgoal by (rule c2 [THEN conjunct2, THEN conjunct1])
    subgoal by (rule c2 [THEN conjunct2, THEN conjunct2])
    subgoal by (rule c3 [THEN conjunct1])
    subgoal by (rule c3 [THEN conjunct2, THEN conjunct1])
    subgoal by (rule c3 [THEN conjunct2, THEN conjunct2])
    subgoal by (rule c4)
    subgoal by (rule c5)
    done
qed

theorem zero_division_and_domain_errors_are_results_witness:
  "reaches plain_runtime (FormulaEngine_init plain_runtime None) (build_context [(''eps'', VFloat 5)] None)
     (BinOp (Constant (VInt 1)) Add (BinOp (Name ''eps'') Div (Constant (VInt 0)))) []
     (BinOp (Name ''eps'') Div (Constant (VInt 0))) []
   \<and> evaluate plain_runtime (FormulaEngine_init plain_runtime None)
       (Parsed (BinOp (Constant (VInt 1)) Add (BinOp (Name ''eps'') Div (Constant (VInt 0)))))
       [(''eps'', VFloat 5)] None
     = \<lparr>fr_value = VNone, fr_error = Some ''Division by zero'', fr_fields_used = []\<rparr>
   \<and> evaluate plain_runtime (FormulaEngine_init plain_runtime None)
       (Parsed (BinOp (Constant (VInt (2 ^ 1100))) Div (Constant (VFloat 0)))) [] None
     = \<lparr>fr_value = VNone, fr_error = Some ''Evaluation error: int too large to convert to float'',
        fr_fields_used = []\<rparr>
   \<and> evaluate plain_runtime (FormulaEngine_init plain_runtime None)
       (Parsed (UnaryOp USub (Call (Name ''sqrt'') [Constant (VFloat (- 4))]))) [] None
     = \<lparr>fr_value = VNone, fr_error = Some ''Math error: math domain error'', fr_fields_used = []\<rparr>
   \<and> evaluate plain_runtime (FormulaEngine_init plain_runtime None)
       (Parsed (Call (Name ''SQRT'') [Constant (VInt (- (2 ^ 1100)))])) [] None
     = \<lparr>fr_value = VNone, fr_error = Some ''Evaluation error: int too large to convert to float'',
        fr_fields_used = []\<rparr>
   \<and> evaluate plain_runtime (FormulaEngine_init plain_runtime None)
       (Parsed (Call (Name ''LOG'') [Constant (VInt 0)])) [] None
     = \<lparr>fr_value = VNone, fr_error = Some ''Math error: math domain error'', fr_fields_used = []\<rparr>
   \<and> fr_value (evaluate plain_runtime (FormulaEngine_init plain_runtime None)
       (Parsed (Name ''eps'')) [] None) = VNone"
proof -
  let ?rt = plain_runtime
  let ?eng = "FormulaEngine_init plain_runtime None"
  let ?c1 = "build_context [(''eps'', VFloat 5 :: unit pyval)] None"
  let ?c0 = "build_context ([] :: unit pydict) None"
  note t = zero_division_and_domain_errors_are_results [of ?rt]
  note t1 = t [THEN conjunct1, rule_format]
  note t2 = t [THEN conjunct2, THEN conjunct1, rule_format]
  note t3 = t [THEN conjunct2, THEN conjunct2, THEN conjunct1, rule_format]
  note t4 = t [THEN conjunct2, THEN conjunct2, THEN conjunct2, THEN conjunct1, rule_format]
  have "(2::real) ^ 1024 \<le> 2 ^ 1100"
    by (rule power_increasing) simp_all
  with float_limit_below have big: "\<not> fits_float (I (2 ^ 1100))" "\<not> fits_float (I (- (2 ^ 1100)))"
    by simp_all
  have r1: "reaches ?rt ?eng ?c1
     (BinOp (Constant (VInt 1)) Add (BinOp (Name ''eps'') Div (Constant (VInt 0)))) []
     (BinOp (Name ''eps'') Div (Constant (VInt 0))) []"
    by (rule binop_right [where left = "VInt 1" and ?fu1.0 = "[]"]) (simp, rule here)
  have a1: "eval_node ?rt ?eng ?c1 (Name ''eps'') [] = (Inr (VFloat 5), [''eps''])"
    by (simp add: build_context_def dict_lower_def str_defs Let_def)
  have b1: "eval_node ?rt ?eng ?c1 (Constant (VInt 0)) [''eps''] = (Inr (VInt 0), [''eps''])"
    by simp
  have n1: "as_num (VFloat 5 :: unit pyval) = Some (F 5)" "as_num (VInt 0 :: unit pyval) = Some (I 0)"
    "to_real (I 0) = 0" "Div = Div \<or> Div = Mod"
    by simp_all
  have c1: "evaluate ?rt ?eng
       (Parsed (BinOp (Constant (VInt 1)) Add (BinOp (Name ''eps'') Div (Constant (VInt 0)))))
       [(''eps'', VFloat 5)] None
     = \<lparr>fr_value = VNone, fr_error = Some ''Division by zero'', fr_fields_used = []\<rparr>"
    using t2 [OF r1 n1(4) a1 b1 n1(1) n1(2) n1(3), THEN conjunct2, THEN conjunct2] by simp
  have r5: "reaches ?rt ?eng ?c0 (BinOp (Constant (VInt (2 ^ 1100))) Div (Constant (VFloat 0))) []
      (BinOp (Constant (VInt (2 ^ 1100))) Div (Constant (VFloat 0))) []"
    by (rule here)
  have a5: "eval_node ?rt ?eng ?c0 (Constant (VInt (2 ^ 1100))) [] = (Inr (VInt (2 ^ 1100)), [])"
    "eval_node ?rt ?eng ?c0 (Constant (VFloat 0)) [] = (Inr (VFloat 0), [])"
    by simp_all
  have n5: "as_num (VInt (2 ^ 1100) :: unit pyval) = Some (I (2 ^ 1100))"
    "as_num (VFloat 0 :: unit pyval) = Some (F 0)" "to_real (F 0) = 0"
    by simp_all
  have c5: "evaluate ?rt ?eng
       (Parsed (BinOp (Constant (VInt (2 ^ 1100))) Div (Constant (VFloat 0)))) [] None
     = \<lparr>fr_value = VNone, fr_error = Some ''Evaluation error: int too large to convert to float'',
        fr_fields_used = []\<rparr>"
    using t2 [OF r5 n1(4) a5 n5, THEN conjunct2, THEN conjunct2] big(1) by simp
  have r2: "reaches ?rt ?eng ?c0 (UnaryOp USub (Call (Name ''sqrt'') [Constant (VFloat (- 4))])) []
      (Call (Name ''sqrt'') [Constant (VFloat (- 4))]) []"
    by (intro unary_operand here)
  have a2: "eval_node ?rt ?eng ?c0 (Constant (VFloat (- 4))) [] = (Inr (VFloat (- 4)), [])"
    by simp
  have n2: "as_num (VFloat (- 4) :: unit pyval) = Some (F (- 4))"
    "upper ''sqrt'' = ''SQRT''" "to_real (F (- 4)) < 0"
    by (simp_all add: str_defs)
  have c2: "evaluate ?rt ?eng
       (Parsed (UnaryOp USub (Call (Name ''sqrt'') [Constant (VFloat (- 4))]))) [] None
     = \<lparr>fr_value = VNone, fr_error = Some ''Math error: math domain error'', fr_fields_used = []\<rparr>"
    using t3 [OF r2 a2 n2, THEN conjunct2, THEN conjunct2] by simp
  have r6: "reaches ?rt ?eng ?c0 (Call (Name ''SQRT'') [Constant (VInt (- (2 ^ 1100)))]) []
      (Call (Name ''SQRT'') [Constant (VInt (- (2 ^ 1100)))]) []"
    by (rule here)
  have a6: "eval_node ?rt ?eng ?c0 (Constant (VInt (- (2 ^ 1100)))) []
      = (Inr (VInt (- (2 ^ 1100))), [])"
    by simp
  have n6: "as_num (VInt (- (2 ^ 1100)) :: unit pyval) = Some (I (- (2 ^ 1100)))"
    "upper ''SQRT'' = ''SQRT''" "to_real (I (- (2 ^ 1100))) < 0"
    by (simp_all add: str_defs)
  have c6: "evaluate ?rt ?eng
       (Parsed (Call (Name ''SQRT'') [Constant (VInt (- (2 ^ 1100)))])) [] None
     = \<lparr>fr_value = VNone, fr_error = Some ''Evaluation error: int too large to convert to float'',
        fr_fields_used = []\<rparr>"
    using t3 [OF r6 a6 n6, THEN conjunct2, THEN conjunct2] big(2) by simp
  have r3: "reaches ?rt ?eng ?c0 (Call (Name ''LOG'') [Constant (VInt 0)]) []
      (Call (Name ''LOG'') [Constant (VInt 0)]) []"
    by (rule here)
  have a3: "eval_node ?rt ?eng ?c0 (Constant (VInt 0)) [] = (Inr (VInt 0), [])"
    by simp
  have n3: "as_num (VInt 0 :: unit pyval) = Some (I 0)"
    "upper ''LOG'' = ''LOG'' \<or> upper ''LOG'' = ''LOG10''" "to_real (I 0) \<le> 0"
    by (simp_all add: str_defs)
  have c3: "evaluate ?rt ?eng
       (Parsed (Call (Name ''LOG'') [Constant (VInt 0)])) [] None
     = \<lparr>fr_value = VNone, fr_error = Some ''Math error: math domain error'', fr_fields_used = []\<rparr>"
    by (rule t4 [OF r3 a3 n3])
  have a4: "eval_node ?rt ?eng ?c0 (Name ''eps'') [] = (Inl (KeyError (KeyStr ''eps'')), [''eps''])"
    by (simp add: build_context_def dict_lower_def str_defs Let_def)
  have c4: "fr_value (evaluate ?rt ?eng (Parsed (Name ''eps'')) [] None) = VNone"
    by (rule t1 [OF a4, THEN conjunct1])
  from r1 c1 c5 c2 c6 c3 c4 show ?thesis by blast
qed

subsection \<open>Null operands\<close>

lemma eps_times_null_field_from_data:
  "fr_value (evaluate rt engine (Parsed (BinOp (Name ''eps'') Mult (Name ''null_field'')))
       [(''eps'', v), (''null_field'', VNone)] None) = VNone"
  by (cases v) (simp_all add: evaluate_def Let_def str_defs build_context_def dict_lower_def)

text \<open>
  Claim C1. When both operands of a binary operation have been evaluated and one of them
  is null, the operation evaluates to null, whatever the operator; so does a unary
  operation on a null operand; the null goes on through the operations above it; and
  \<^verbatim>\<open>eps * null_field\<close>, in a context that holds \<^verbatim>\<open>null_field\<close> with a null value, evaluates
  to null without an error. (When it is \<^verbatim>\<open>data\<close> that holds \<^verbatim>\<open>null_field\<close> with a null
  value, the value of the result is null as well, with the error of claim C9.)
\<close>

theorem null_operand_gives_null:
  "(\<forall>self ctxt l op r fu left fu1 right fu2.
      eval_node rt self ctxt l fu = (Inr left, fu1) \<longrightarrow>
      eval_node rt self ctxt r fu1 = (Inr right, fu2) \<longrightarrow>
      is_None left \<or> is_None right \<longrightarrow>
      eval_node rt self ctxt (BinOp l op r) fu = (Inr VNone, fu2))
   \<and> (\<forall>self ctxt op operand fu fu1.
      eval_node rt self ctxt operand fu = (Inr VNone, fu1) \<longrightarrow>
      eval_node rt self ctxt (UnaryOp op operand) fu = (Inr VNone, fu1))
   \<and> (\<forall>self ctxt l op r op' r' op'' fu fu1 right fu2 right' fu3.
      eval_node rt self ctxt l fu = (Inr VNone, fu1) \<longrightarrow>
      eval_node rt self ctxt r fu1 = (Inr right, fu2) \<longrightarrow>
      eval_node rt self ctxt r' fu2 = (Inr right', fu3) \<longrightarrow>
      eval_node rt self ctxt (UnaryOp op'' (BinOp (BinOp l op r) op' r')) fu = (Inr VNone, fu3))
   \<and> (\<forall>self data cf v.
      build_context data cf ''eps'' = Some v \<longrightarrow>
      build_context data cf ''null_field'' = Some VNone \<longrightarrow>
      evaluate rt self (Parsed (BinOp (Name ''eps'') Mult (Name ''null_field''))) data cf
        = \<lparr>fr_value = VNone, fr_error = None, fr_fields_used = [''eps'', ''null_field'']\<rparr>)
   \<and> (\<forall>self v.
      fr_value (evaluate rt self (Parsed (BinOp (Name ''eps'') Mult (Name ''null_field'')))
        [(''eps'', v), (''null_field'', VNone)] None) = VNone)"
  using eps_times_null_field_from_data [of rt]
  by (auto simp add: evaluate_def Let_def str_defs elim: is_None.elims)

theorem null_operand_gives_null_witness:
  "build_context [(''eps'', VFloat 5)] (Some [(''null_field'', VNone :: unit pyval)]) ''null_field''
     = Some VNone
   \<and> evaluate plain_runtime (FormulaEngine_init plain_runtime None)
       (Parsed (BinOp (Name ''eps'') Mult (Name ''null_field'')))
       [(''eps'', VFloat 5)] (Some [(''null_field'', VNone)])
     = \<lparr>fr_value = VNone, fr_error = None, fr_fields_used = [''eps'', ''null_field'']\<rparr>
   \<and> eval_node plain_runtime (FormulaEngine_init plain_runtime None) Map.empty
       (BinOp (Constant (VInt 3)) Add (UnaryOp USub (Constant VNone))) [] = (Inr VNone, [])"
proof -
  let ?rt = plain_runtime
  let ?eng = "FormulaEngine_init plain_runtime None"
  note t = null_operand_gives_null [of ?rt]
  note t1 = t [THEN conjunct1, rule_format]
  note t2 = t [THEN conjunct2, THEN conjunct1, rule_format]
  note t4 = t [THEN conjunct2, THEN conjunct2, THEN conjunct2, THEN conjunct1, rule_format]
  have h1: "build_context [(''eps'', VFloat 5)] (Some [(''null_field'', VNone :: unit pyval)]) ''eps''
     = Some (VFloat 5)"
    by (simp add: build_context_def dict_lower_def str_defs Let_def)
  have h2: "build_context [(''eps'', VFloat 5)] (Some [(''null_field'', VNone :: unit pyval)]) ''null_field''
     = Some VNone"
    by (simp add: build_context_def dict_lower_def str_defs Let_def)
  have c1: "evaluate ?rt ?eng
       (Parsed (BinOp (Name ''eps'') Mult (Name ''null_field'')))
       [(''eps'', VFloat 5)] (Some [(''null_field'', VNone)])
     = \<lparr>fr_value = VNone, fr_error = None, fr_fields_used = [''eps'', ''null_field'']\<rparr>"
    by (rule t4 [OF h1 h2])
  have u0: "eval_node ?rt ?eng Map.empty (Constant VNone) [] = (Inr VNone, [])" by simp
  have u1: "eval_node ?rt ?eng Map.empty (UnaryOp USub (Constant VNone)) [] = (Inr VNone, [])"
    by (rule t2 [OF u0])
  have u2: "eval_node ?rt ?eng Map.empty (Constant (VInt 3)) [] = (Inr (VInt 3), [])" by simp
  have u3: "is_None (VInt 3 :: unit pyval) \<or> is_None (VNone :: unit pyval)" by simp
  have c2: "eval_node ?rt ?eng Map.empty
       (BinOp (Constant (VInt 3)) Add (UnaryOp USub (Constant VNone))) [] = (Inr VNone, [])"
    by (rule t1 [OF u2 u1 u3])
  from h2 c1 c2 show ?thesis by blast
qed

subsection \<open>Null entries of the data and the overlay\<close>

lemma dict_lower_None: "dict_lower items name = None \<longleftrightarrow> name \<notin> (\<lambda>(k, v). lower k) ` set items"
  by (force simp add: dict_lower_def map_of_eq_None_iff image_image split_def)

lemma dict_lower_Some:
  assumes "(k, v) \<in> set items" and "\<forall>(k', v')\<in>set items. lower k' = lower k \<longrightarrow> v' = v"
  shows "dict_lower items (lower k) = Some v"
proof -
  from assms(1) have "lower k \<in> (\<lambda>(k, v). lower k) ` set items"
    by (rule rev_image_eqI) simp
  then have "dict_lower items (lower k) \<noteq> None"
    by (simp add: dict_lower_None)
  then obtain w where w: "dict_lower items (lower k) = Some w" by blast
  then have "(lower k, w) \<in> set (rev (map (\<lambda>(k, v). (lower k, v)) items))"
    unfolding dict_lower_def by (rule map_of_SomeD)
  then obtain k' where "(k', w) \<in> set items" "lower k' = lower k" by auto
  with assms(2) have "w = v" by blast
  with w show ?thesis by simp
qed

lemma build_context_filter:
  "build_context (filter (\<lambda>(k, v). \<not> is_None v) data) cf = build_context data cf"
  by (simp add: build_context_def split_def)

lemma build_context_overlay:
  "build_context data (Some cf) = dict_lower (filter (\<lambda>(k, v). \<not> is_None v) data) ++ dict_lower cf"
  by (simp add: build_context_def Let_def dict_lower_def)

lemma build_context_missing:
  assumes "\<forall>(k, v)\<in>set data. lower k = name \<longrightarrow> is_None v"
    and "\<forall>c. cf = Some c \<longrightarrow> name \<notin> (\<lambda>(k, v). lower k) ` set c"
  shows "build_context data cf name = None"
proof -
  have d: "dict_lower (filter (\<lambda>(k, v). \<not> is_None v) data) name = None"
    using assms(1) by (force simp add: dict_lower_None)
  show ?thesis
  proof (cases cf)
    case None
    with d show ?thesis by (simp add: build_context_def)
  next
    case (Some c)
    with assms(2) have "dict_lower c name = None" by (simp add: dict_lower_None)
    with d Some show ?thesis by (simp add: build_context_overlay map_add_None)
  qed
qed

lemma evaluate_ignores_null_data:
  "evaluate rt self parsed data cf
     = evaluate rt self parsed (filter (\<lambda>(k, v). \<not> is_None v) data) cf"
  by (simp add: evaluate_def build_context_filter)

lemma evaluate_missing_field:
  assumes r: "reaches rt self (build_context data cf) tree [] (Name ident) fu"
    and d: "\<forall>(k, v)\<in>set data. lower k = lower ident \<longrightarrow> is_None v"
    and c: "\<forall>c. cf = Some c \<longrightarrow> lower ident \<notin> (\<lambda>(k, v). lower k) ` set c"
  shows "evaluate rt self (Parsed tree) data cf
        = \<lparr>fr_value = VNone, fr_error = Some (''Missing field: '' @ quoted (lower ident)),
           fr_fields_used = []\<rparr>"
proof -
  have "build_context data cf (lower ident) = None"
    using d c by (rule build_context_missing)
  then have "eval_node rt self (build_context data cf) (Name ident) fu
      = (Inl (KeyError (KeyStr (lower ident))), fu @ [lower ident])"
    by (simp add: Let_def)
  from evaluate_reached_exception [OF r this] show ?thesis by simp
qed

lemma computed_fields_entry_in_context:
  assumes "(k, v) \<in> set cf" and "\<forall>(k', v')\<in>set cf. lower k' = lower k \<longrightarrow> v' = v"
  shows "build_context data (Some cf) (lower k) = Some v"
proof -
  from assms have "dict_lower cf (lower k) = Some v" by (rule dict_lower_Some)
  then show ?thesis by (simp add: build_context_overlay)
qed

text \<open>
  Claim C9. \<^verbatim>\<open>evaluate\<close> gives the same result on \<^verbatim>\<open>data\<close> and on \<^verbatim>\<open>data\<close> without its null
  entries. When the evaluation reaches a name that only null entries of \<^verbatim>\<open>data\<close> provide
  (and no entry of \<^verbatim>\<open>computed_fields\<close>), the result is null with the error
  \<^verbatim>\<open>Missing field: 'name'\<close>. An entry of \<^verbatim>\<open>computed_fields\<close>, null or not, is in the context
  under its lower-cased key whatever \<^verbatim>\<open>data\<close> holds. \<^verbatim>\<open>eps * null_field\<close> on the data
  \<^verbatim>\<open>{eps: 5.0, null_field: None}\<close> gives the missing-field error.
\<close>

theorem null_data_entries_are_dropped:
  "(\<forall>self parsed data cf.
      evaluate rt self parsed data cf
        = evaluate rt self parsed (filter (\<lambda>(k, v). \<not> is_None v) data) cf)
   \<and> (\<forall>self tree data cf ident fu.
      reaches rt self (build_context data cf) tree [] (Name ident) fu \<longrightarrow>
      (\<forall>(k, v)\<in>set data. lower k = lower ident \<longrightarrow> is_None v) \<longrightarrow>
      (\<forall>c. cf = Some c \<longrightarrow> lower ident \<notin> (\<lambda>(k, v). lower k) ` set c) \<longrightarrow>
      evaluate rt self (Parsed tree) data cf
        = \<lparr>fr_value = VNone, fr_error = Some (''Missing field: '' @ quoted (lower ident)),
           fr_fields_used = []\<rparr>)
   \<and> (\<forall>data cf k v.
      (k, v) \<in> set cf \<longrightarrow> (\<forall>(k', v')\<in>set cf. lower k' = lower k \<longrightarrow> v' = v) \<longrightarrow>
      build_context data (Some cf) (lower k) = Some v)
   \<and> evaluate rt engine (Parsed (BinOp (Name ''eps'') Mult (Name ''null_field'')))
        [(''eps'', VFloat 5), (''null_field'', VNone)] None
      = \<lparr>fr_value = VNone, fr_error = Some (''Missing field: '' @ quoted ''null_field''),
         fr_fields_used = []\<rparr>"
proof -
  have "evaluate rt engine (Parsed (BinOp (Name ''eps'') Mult (Name ''null_field'')))
        [(''eps'', VFloat 5), (''null_field'', VNone)] None
      = \<lparr>fr_value = VNone, fr_error = Some (''Missing field: '' @ quoted ''null_field''),
         fr_fields_used = []\<rparr>"
    by (simp add: evaluate_def build_context_def dict_lower_def Let_def str_defs)
  then show ?thesis
    using evaluate_ignores_null_data [of rt] evaluate_missing_field [of rt]
      computed_fields_entry_in_context
    by (intro conjI allI impI) blast+
qed

theorem null_data_entries_are_dropped_witness:
  "evaluate plain_runtime (FormulaEngine_init plain_runtime None)
       (Parsed (Call (Name ''ABS'') [Name ''Price''])) [(''eps'', VFloat 5), (''price'', VNone)]
       (Some [(''graham_number'', VNone)])
     = \<lparr>fr_value = VNone, fr_error = Some (''Missing field: '' @ quoted ''price''),
        fr_fields_used = []\<rparr>
   \<and> build_context [(''eps'', VFloat 5), (''price'', VNone)]
        (Some [(''graham_number'', VNone), (''EPS'', VInt 1 :: unit pyval)]) ''graham_number'' = Some VNone
   \<and> build_context [(''eps'', VFloat 5), (''price'', VNone)]
        (Some [(''graham_number'', VNone), (''EPS'', VInt 1 :: unit pyval)]) ''eps'' = Some (VInt 1)"
proof -
  let ?rt = plain_runtime
  let ?eng = "FormulaEngine_init plain_runtime None"
  let ?data = "[(''eps'', VFloat 5), (''price'', VNone :: unit pyval)]"
  let ?cf = "[(''graham_number'', VNone :: unit pyval)]"
  let ?cf2 = "[(''graham_number'', VNone), (''EPS'', VInt 1 :: unit pyval)]"
  note t = null_data_entries_are_dropped [of ?rt]
  note t2 = t [THEN conjunct2, THEN conjunct1, THEN spec, THEN spec, THEN spec, THEN spec,
      THEN spec, THEN spec, THEN mp, THEN mp, THEN mp]
  note t3 = t [THEN conjunct2, THEN conjunct2, THEN conjunct1, THEN spec, THEN spec, THEN spec,
      THEN spec, THEN mp, THEN mp]
  have r: "reaches ?rt ?eng (build_context ?data (Some ?cf)) (Call (Name ''ABS'') [Name ''Price'']) []
      (Name ''Price'') []"
    by (rule call_args [where f = "builtin_abs ?rt"])
       (simp add: table_defs str_defs, intro args_head here)
  have d: "\<forall>(k, v)\<in>set ?data. lower k = lower ''Price'' \<longrightarrow> is_None v"
    by (simp add: str_defs)
  have c: "\<forall>c. Some ?cf = Some c \<longrightarrow> lower ''Price'' \<notin> (\<lambda>(k, v). lower k) ` set c"
    by (simp add: str_defs)
  have l: "lower ''Price'' = ''price''" by (simp add: str_defs)
  have c1: "evaluate ?rt ?eng (Parsed (Call (Name ''ABS'') [Name ''Price''])) ?data (Some ?cf)
     = \<lparr>fr_value = VNone, fr_error = Some (''Missing field: '' @ quoted ''price''),
        fr_fields_used = []\<rparr>"
    using t2 [OF r d c] l by simp
  have m1: "(''graham_number'', VNone) \<in> set ?cf2" by simp
  have m2: "\<forall>(k', v')\<in>set ?cf2. lower k' = lower ''graham_number'' \<longrightarrow> v' = VNone"
    by (simp add: str_defs)
  have l2: "lower ''graham_number'' = ''graham_number''" "lower ''EPS'' = ''eps''"
    by (simp_all add: str_defs)
  have c2: "build_context ?data (Some ?cf2) ''graham_number'' = Some VNone"
    using t3 [OF m1 m2, of ?data] l2 by simp
  have m3: "(''EPS'', VInt 1) \<in> set ?cf2" by simp
  have m4: "\<forall>(k', v')\<in>set ?cf2. lower k' = lower ''EPS'' \<longrightarrow> v' = VInt 1"
    by (simp add: str_defs)
  have c3: "build_context ?data (Some ?cf2) ''eps'' = Some (VInt 1)"
    using t3 [OF m3 m4, of ?data] l2 by simp
  from c1 c2 c3 show ?thesis by blast
qed

subsection \<open>Chained comparisons\<close>

lemma null_link:
  "reaches_link rt self ctxt left ops cs fu left' op c fu'
     \<Longrightarrow> eval_node rt self ctxt c fu' = (Inr VNone, fu'')
     \<Longrightarrow> eval_compare rt self ctxt left ops cs fu = (Inr VNone, fu'')"
  by (induction rule: reaches_link.induct) simp_all

lemma failing_link:
  "reaches_link rt self ctxt left ops cs fu left' op c fu'
     \<Longrightarrow> eval_node rt self ctxt c fu' = (Inr right, fu'') \<Longrightarrow> \<not> is_None right
     \<Longrightarrow> SAFE_OPERATORS rt op = Some op_func \<Longrightarrow> op_func [left', right] = Inr holds
     \<Longrightarrow> \<not> truthy rt holds
     \<Longrightarrow> eval_compare rt self ctxt left ops cs fu = (Inr (VBool False), fu'')"
  by (induction rule: reaches_link.induct) simp_all

lemma lt_numbers:
  "as_num a = Some x \<Longrightarrow> as_num b = Some y
     \<Longrightarrow> operator_lt rt [a, b] = Inr (VBool (to_real x < to_real y))"
  by (simp add: operator_lt_def py_builtin_def num_not_obj)

lemma safe_operators_lt: "SAFE_OPERATORS rt Lt = Some (operator_lt rt)"
  by (simp add: SAFE_OPERATORS_def)

lemma zero_lt_x_lt_one:
  assumes "ctxt ''x'' = Some v" and "as_num v = Some n"
  shows "eval_node rt self ctxt (Compare (Constant (VInt 0)) [Lt, Lt] [Name ''x'', Constant (VInt 1)]) []
     = (Inr (VBool (0 < to_real n \<and> to_real n < 1)), [''x''])"
  using assms num_not_None [OF assms(2)]
  by (simp add: Let_def str_defs safe_operators_lt lt_numbers)

text \<open>
  Claim C5. \<^verbatim>\<open>0 < x < 1\<close> (the constant 0 compared with the name \<^verbatim>\<open>x\<close>, compared with the
  constant 1), in a context that gives \<^verbatim>\<open>x\<close> a number, evaluates to true exactly when the
  number is strictly between 0 and 1: true for 0.5, false for 1.5. For every chained
  comparison: a null left operand makes it null; when the loop reaches a link whose
  comparator evaluates to null, the comparison is null; when it reaches a link that does
  not hold, the comparison is false; and in both cases \<^verbatim>\<open>fields_used\<close> is as that comparator
  left it, so no later comparator is evaluated.
\<close>

theorem chained_comparison:
  "(\<forall>self data cf v n.
      build_context data cf ''x'' = Some v \<longrightarrow> as_num v = Some n \<longrightarrow>
      evaluate rt self
        (Parsed (Compare (Constant (VInt 0)) [Lt, Lt] [Name ''x'', Constant (VInt 1)])) data cf
        = \<lparr>fr_value = VBool (0 < to_real n \<and> to_real n < 1), fr_error = None,
           fr_fields_used = [''x'']\<rparr>)
   \<and> evaluate rt engine
        (Parsed (Compare (Constant (VInt 0)) [Lt, Lt] [Name ''x'', Constant (VInt 1)]))
        [(''x'', VFloat 0.5)] None
      = \<lparr>fr_value = VBool True, fr_error = None, fr_fields_used = [''x'']\<rparr>
   \<and> evaluate rt engine
        (Parsed (Compare (Constant (VInt 0)) [Lt, Lt] [Name ''x'', Constant (VInt 1)]))
        [(''x'', VFloat 1.5)] None
      = \<lparr>fr_value = VBool False, fr_error = None, fr_fields_used = [''x'']\<rparr>
   \<and> (\<forall>self ctxt l ops cs fu fu0.
      eval_node rt self ctxt l fu = (Inr VNone, fu0) \<longrightarrow>
      eval_node rt self ctxt (Compare l ops cs) fu = (Inr VNone, fu0))
   \<and> (\<forall>self ctxt l ops cs fu left fu0 left' op c fu' fu''.
      eval_node rt self ctxt l fu = (Inr left, fu0) \<longrightarrow> \<not> is_None left \<longrightarrow>
      reaches_link rt self ctxt left ops cs fu0 left' op c fu' \<longrightarrow>
      eval_node rt self ctxt c fu' = (Inr VNone, fu'') \<longrightarrow>
      eval_node rt self ctxt (Compare l ops cs) fu = (Inr VNone, fu''))
   \<and> (\<forall>self ctxt l ops cs fu left fu0 left' op c fu' right fu'' op_func holds.
      eval_node rt self ctxt l fu = (Inr left, fu0) \<longrightarrow> \<not> is_None left \<longrightarrow>
      reaches_link rt self ctxt left ops cs fu0 left' op c fu' \<longrightarrow>
      eval_node rt self ctxt c fu' = (Inr right, fu'') \<longrightarrow> \<not> is_None right \<longrightarrow>
      SAFE_OPERATORS rt op = Some op_func \<longrightarrow> op_func [left', right] = Inr holds \<longrightarrow>
      \<not> truthy rt holds \<longrightarrow>
      eval_node rt self ctxt (Compare l ops cs) fu = (Inr (VBool False), fu''))"
proof -
  have general: "\<And>self data cf v n. build_context data cf ''x'' = Some v \<Longrightarrow> as_num v = Some n \<Longrightarrow>
      evaluate rt self
        (Parsed (Compare (Constant (VInt 0)) [Lt, Lt] [Name ''x'', Constant (VInt 1)])) data cf
        = \<lparr>fr_value = VBool (0 < to_real n \<and> to_real n < 1), fr_error = None,
           fr_fields_used = [''x'']\<rparr>"
    by (simp add: evaluate_def Let_def zero_lt_x_lt_one del: eval_node.simps)
  have c1: "build_context [(''x'', VFloat 0.5)] None ''x'' = Some (VFloat 0.5)"
    and c2: "build_context [(''x'', VFloat 1.5)] None ''x'' = Some (VFloat 1.5)"
    by (simp_all add: build_context_def dict_lower_def str_defs)
  have ex1: "evaluate rt engine
        (Parsed (Compare (Constant (VInt 0)) [Lt, Lt] [Name ''x'', Constant (VInt 1)]))
        [(''x'', VFloat 0.5)] None
      = \<lparr>fr_value = VBool True, fr_error = None, fr_fields_used = [''x'']\<rparr>"
    using general [OF c1, of "F 0.5" engine] by simp
  have ex2: "evaluate rt engine
        (Parsed (Compare (Constant (VInt 0)) [Lt, Lt] [Name ''x'', Constant (VInt 1)]))
        [(''x'', VFloat 1.5)] None
      = \<lparr>fr_value = VBool False, fr_error = None, fr_fields_used = [''x'']\<rparr>"
    using general [OF c2, of "F 1.5" engine] by simp
  have left_null: "\<And>self ctxt l ops cs fu fu0.
      eval_node rt self ctxt l fu = (Inr VNone, fu0) \<Longrightarrow>
      eval_node rt self ctxt (Compare l ops cs) fu = (Inr VNone, fu0)"
    by simp
  have link_null: "\<And>self ctxt l ops cs fu left fu0 left' op c fu' fu''.
      eval_node rt self ctxt l fu = (Inr left, fu0) \<Longrightarrow> \<not> is_None left \<Longrightarrow>
      reaches_link rt self ctxt left ops cs fu0 left' op c fu' \<Longrightarrow>
      eval_node rt self ctxt c fu' = (Inr VNone, fu'') \<Longrightarrow>
      eval_node rt self ctxt (Compare l ops cs) fu = (Inr VNone, fu'')"
    by (simp add: null_link)
  have link_fails: "\<And>self ctxt l ops cs fu left fu0 left' op c fu' right fu'' op_func holds.
      eval_node rt self ctxt l fu = (Inr left, fu0) \<Longrightarrow> \<not> is_None left \<Longrightarrow>
      reaches_link rt self ctxt left ops cs fu0 left' op c fu' \<Longrightarrow>
      eval_node rt self ctxt c fu' = (Inr right, fu'') \<Longrightarrow> \<not> is_None right \<Longrightarrow>
      SAFE_OPERATORS rt op = Some op_func \<Longrightarrow> op_func [left', right] = Inr holds \<Longrightarrow>
      \<not> truthy rt holds \<Longrightarrow>
      eval_node rt self ctxt (Compare l ops cs) fu = (Inr (VBool False), fu'')"
    by (simp add: failing_link)
  show ?thesis
    apply (intro conjI allI impI)
    subgoal by (rule general)
    subgoal by (rule ex1)
    subgoal by (rule ex2)
    subgoal by (rule left_null)
    subgoal by (rule link_null)
    subgoal by (rule link_fails)
    done
qed

theorem chained_comparison_witness:
  "evaluate plain_runtime (FormulaEngine_init plain_runtime None)
      (Parsed (Compare (Constant (VInt 0)) [Lt, Lt] [Name ''x'', Constant (VInt 1)]))
      [(''x'', VInt 0)] None
     = \<lparr>fr_value = VBool False, fr_error = None, fr_fields_used = [''x'']\<rparr>
   \<and> eval_node plain_runtime (FormulaEngine_init plain_runtime None) Map.empty
      (Compare (Constant (VInt 0)) [Lt, Lt, Lt] [Constant (VInt 1), Constant VNone, Name ''zz'']) []
     = (Inr VNone, [])
   \<and> eval_node plain_runtime (FormulaEngine_init plain_runtime None) Map.empty
      (Compare (Constant (VInt 0)) [Lt, Lt, Lt] [Constant (VInt 5), Constant (VInt 3), Name ''zz'']) []
     = (Inr (VBool False), [])"
proof -
  let ?rt = plain_runtime
  let ?eng = "FormulaEngine_init plain_runtime None"
  let ?e = "Map.empty :: unit value_context"
  note t = chained_comparison [of ?rt]
  note t1 = t [THEN conjunct1, rule_format]
  note t5 = t [THEN conjunct2, THEN conjunct2, THEN conjunct2, THEN conjunct2, THEN conjunct1,
      rule_format]
  note t6 = t [THEN conjunct2, THEN conjunct2, THEN conjunct2, THEN conjunct2, THEN conjunct2,
      rule_format]
  have lt: "SAFE_OPERATORS ?rt Lt = Some (operator_lt ?rt)" by (rule safe_operators_lt)
  have a1: "build_context [(''x'', VInt 0 :: unit pyval)] None ''x'' = Some (VInt 0)"
    by (simp add: build_context_def dict_lower_def str_defs)
  have a2: "as_num (VInt 0 :: unit pyval) = Some (I 0)" by simp
  have c1: "evaluate ?rt ?eng
      (Parsed (Compare (Constant (VInt 0)) [Lt, Lt] [Name ''x'', Constant (VInt 1)]))
      [(''x'', VInt 0)] None
     = \<lparr>fr_value = VBool False, fr_error = None, fr_fields_used = [''x'']\<rparr>"
    using t1 [OF a1 a2, of ?eng] by simp
  have l0: "eval_node ?rt ?eng ?e (Constant (VInt 0)) [] = (Inr (VInt 0), [])" by simp
  have n0: "\<not> is_None (VInt 0 :: unit pyval)" by simp
  have e1: "eval_node ?rt ?eng ?e (Constant (VInt 1)) [] = (Inr (VInt 1), [])" by simp
  have n1: "\<not> is_None (VInt 1 :: unit pyval)" by simp
  have h1: "operator_lt ?rt [VInt 0, VInt 1] = Inr (VBool True)"
    by (simp add: operator_lt_def py_builtin_def)
  have tr: "truthy ?rt (VBool True)" by simp
  have r2: "reaches_link ?rt ?eng ?e (VInt 0) [Lt, Lt, Lt]
      [Constant (VInt 1), Constant VNone, Name ''zz''] [] (VInt 1) Lt (Constant VNone) []"
    by (rule next_link [OF e1 n1 lt h1 tr first_link])
  have e2: "eval_node ?rt ?eng ?e (Constant VNone) [] = (Inr VNone, [])" by simp
  have c2: "eval_node ?rt ?eng ?e
      (Compare (Constant (VInt 0)) [Lt, Lt, Lt] [Constant (VInt 1), Constant VNone, Name ''zz'']) []
     = (Inr VNone, [])"
    by (rule t5 [OF l0 n0 r2 e2])
  have e5: "eval_node ?rt ?eng ?e (Constant (VInt 5)) [] = (Inr (VInt 5), [])" by simp
  have n5: "\<not> is_None (VInt 5 :: unit pyval)" by simp
  have h5: "operator_lt ?rt [VInt 0, VInt 5] = Inr (VBool True)"
    by (simp add: operator_lt_def py_builtin_def)
  have r3: "reaches_link ?rt ?eng ?e (VInt 0) [Lt, Lt, Lt]
      [Constant (VInt 5), Constant (VInt 3), Name ''zz''] [] (VInt 5) Lt (Constant (VInt 3)) []"
    by (rule next_link [OF e5 n5 lt h5 tr first_link])
  have e3: "eval_node ?rt ?eng ?e (Constant (VInt 3)) [] = (Inr (VInt 3), [])" by simp
  have n3: "\<not> is_None (VInt 3 :: unit pyval)" by simp
  have h3: "operator_lt ?rt [VInt 5, VInt 3] = Inr (VBool False)"
    by (simp add: operator_lt_def py_builtin_def)
  have f3: "\<not> truthy ?rt (VBool False)" by simp
  have c3: "eval_node ?rt ?eng ?e
      (Compare (Constant (VInt 0)) [Lt, Lt, Lt] [Constant (VInt 5), Constant (VInt 3), Name ''zz'']) []
     = (Inr (VBool False), [])"
    by (rule t6 [OF l0 n0 r3 e3 n3 lt h3 f3])
  from c1 c2 c3 show ?thesis by blast
qed

subsection \<open>The batch loop\<close>

text \<open>\<^verbatim>\<open>compute_all_formulas\<close> against the batch computation that the specification describes.\<close>

lemma lower_char_idem: "lower_char (lower_char c) = lower_char c"
  by (cases c) (auto simp add: lower_char_def)

lemma lower_normalized: "lower (replace_space (lower s)) = replace_space (lower s)"
proof -
  have "lower_char (if lower_char c = CHR '' '' then CHR ''_'' else lower_char c)
      = (if lower_char c = CHR '' '' then CHR ''_'' else lower_char c)" for c
    by (simp add: lower_char_idem) (simp add: lower_char_def)
  then show ?thesis by (simp add: lower_def replace_space_def)
qed

lemma normalized_keys_update:
  "normalized_keys rc \<Longrightarrow> lower k = k \<Longrightarrow> normalized_keys (AList.update k v rc)"
  by (auto simp add: normalized_keys_def distinct_update dom_update list_all_iff)

lemma registered_value_in_context:
  assumes "normalized_keys rc" and "lower k = k"
  shows "build_context data (Some (AList.update k v rc)) k = Some v"
proof -
  let ?rc = "AList.update k v rc"
  have d: "distinct (map fst ?rc)" using assms(1) by (simp add: normalized_keys_def distinct_update)
  have "map_of ?rc k = Some v" by (simp add: update_conv')
  then have m: "(k, v) \<in> set ?rc" by (rule map_of_SomeD)
  have "\<forall>(k', v')\<in>set ?rc. lower k' = lower k \<longrightarrow> v' = v"
  proof (clarify)
    fix k' v' assume i: "(k', v') \<in> set ?rc" and l: "lower k' = lower k"
    from i have "k' \<in> set (map fst ?rc)" by force
    then have "k' = k \<or> k' \<in> set (map fst rc)" by (auto simp add: dom_update)
    with assms l have "k' = k" by (auto simp add: normalized_keys_def list_all_iff)
    with i d m show "v' = v" by (metis map_of_is_SomeI option.inject)
  qed
  from computed_fields_entry_in_context [OF m this, of data] assms(2) show ?thesis by simp
qed

lemma evaluate_registered_name:
  assumes "normalized_keys rc" and "lower k = k" and "lower ident = k"
  shows "evaluate rt engine (Parsed (Name ident)) data (Some (AList.update k v rc))
      = \<lparr>fr_value = v, fr_error = None, fr_fields_used = [k]\<rparr>"
  using registered_value_in_context [OF assms(1) assms(2), of data v] assms(3)
  by (simp add: evaluate_def Let_def)

lemma normalized_keys_empty: "normalized_keys []"
  by (simp add: normalized_keys_def)

lemma synthetic_fields_empty: "synthetic_fields rt engine data [] = []"
  by (simp add: synthetic_fields_def)

lemma synthetic_fields_snoc:
  "synthetic_fields rt engine data (earlier @ [formula])
     = register_value rt engine data (synthetic_fields rt engine data earlier) formula"
  by (simp add: synthetic_fields_def)

lemma synthetic_fields_normalized: "normalized_keys (synthetic_fields rt engine data earlier)"
proof (induction earlier rule: rev_induct)
  case Nil
  show ?case by (simp add: synthetic_fields_empty normalized_keys_empty)
next
  case (snoc formula earlier)
  then show ?case
    by (cases formula)
       (simp add: synthetic_fields_snoc register_value_def Let_def normalized_keys_update
          lower_normalized)
qed

lemma compute_formulas_refines:
  assumes "\<forall>i<length (record_values rt engine data ticker as_of earlier fs).
      conn (ws @ take i (record_values rt engine data ticker as_of earlier fs))
        (record_values rt engine data ticker as_of earlier fs ! i) = None"
  shows "compute_formulas rt conn engine data ticker as_of fs
        (synthetic_fields rt engine data earlier, ws, n)
     = (None, synthetic_fields rt engine data (earlier @ fs),
        ws @ record_values rt engine data ticker as_of earlier fs,
        n + length (record_values rt engine data ticker as_of earlier fs))"
  using assms
proof (induction fs arbitrary: earlier ws n)
  case Nil
  show ?case by simp
next
  case (Cons formula fs)
  obtain formula_id formula_name expression where f: "formula = (formula_id, formula_name, expression)"
    by (cases formula)
  let ?rc = "synthetic_fields rt engine data earlier"
  let ?v = "fr_value (evaluate rt engine expression data (Some ?rc))"
  let ?rest = "record_values rt engine data ticker as_of (earlier @ [formula]) fs"
  have v: "formula_value rt engine data earlier formula = ?v"
    by (simp add: formula_value_def f)
  show ?case
  proof (cases "is_None ?v")
    case True
    then have rv: "record_values rt engine data ticker as_of earlier (formula # fs) = ?rest"
      by (simp add: v Let_def)
    from True have s: "synthetic_fields rt engine data (earlier @ [formula]) = ?rc"
      by (simp add: synthetic_fields_snoc register_value_def f Let_def)
    from Cons.prems have "\<forall>i<length ?rest. conn (ws @ take i ?rest) (?rest ! i) = None"
      by (simp only: rv)
    from Cons.IH [OF this, of n]
    have "compute_formulas rt conn engine data ticker as_of fs (?rc, ws, n)
        = (None, synthetic_fields rt engine data (earlier @ formula # fs), ws @ ?rest,
           n + length ?rest)"
      by (simp add: s)
    moreover from True
    have "compute_formulas rt conn engine data ticker as_of (formula # fs) (?rc, ws, n)
        = compute_formulas rt conn engine data ticker as_of fs (?rc, ws, n)"
      by (simp add: f Let_def)
    ultimately show ?thesis by (simp only: rv)
  next
    case False
    let ?w = "\<lparr>mw_ticker = ticker, mw_as_of = as_of, mw_metric_name = formula_name,
               mw_formula_id = formula_id, mw_value = ?v\<rparr>"
    from False have rv: "record_values rt engine data ticker as_of earlier (formula # fs) = ?w # ?rest"
      by (simp add: v Let_def) (simp add: f)
    from False have s: "synthetic_fields rt engine data (earlier @ [formula])
        = AList.update (replace_space (lower formula_name)) ?v ?rc"
      by (simp add: synthetic_fields_snoc register_value_def f Let_def)
    from Cons.prems have all: "\<forall>i<Suc (length ?rest). conn (ws @ take i (?w # ?rest)) ((?w # ?rest) ! i) = None"
      by (simp only: rv list.size) simp
    from all [rule_format, of 0] have w: "conn ws ?w = None" by simp
    have "\<forall>i<length ?rest. conn ((ws @ [?w]) @ take i ?rest) (?rest ! i) = None"
    proof (intro allI impI)
      fix i assume "i < length ?rest"
      with all [rule_format, of "Suc i"]
      have "conn (ws @ take (Suc i) (?w # ?rest)) ((?w # ?rest) ! Suc i) = None"
        by simp
      then show "conn ((ws @ [?w]) @ take i ?rest) (?rest ! i) = None" by simp
    qed
    from Cons.IH [OF this, of "n + 1"]
    have "compute_formulas rt conn engine data ticker as_of fs
          (AList.update (replace_space (lower formula_name)) ?v ?rc, ws @ [?w], n + 1)
        = (None, synthetic_fields rt engine data (earlier @ formula # fs), ws @ ?w # ?rest,
           n + length (?w # ?rest))"
      by (simp add: s)
    moreover from False w
    have "compute_formulas rt conn engine data ticker as_of (formula # fs) (?rc, ws, n)
        = compute_formulas rt conn engine data ticker as_of fs
            (AList.update (replace_space (lower formula_name)) ?v ?rc, ws @ [?w], n + 1)"
      by (simp add: f Let_def)
    ultimately show ?thesis by (simp only: rv)
  qed
qed

lemma compute_formulas_aborts:
  assumes "i < length (record_values rt engine data ticker as_of earlier fs)"
    and "\<forall>j<i. conn (ws @ take j (record_values rt engine data ticker as_of earlier fs))
        (record_values rt engine data ticker as_of earlier fs ! j) = None"
    and "conn (ws @ take i (record_values rt engine data ticker as_of earlier fs))
        (record_values rt engine data ticker as_of earlier fs ! i) = Some e"
  shows "\<exists>rc. compute_formulas rt conn engine data ticker as_of fs
        (synthetic_fields rt engine data earlier, ws, n)
     = (Some e, rc, ws @ take i (record_values rt engine data ticker as_of earlier fs), n + i)"
  using assms
proof (induction fs arbitrary: earlier ws n i)
  case Nil
  then show ?case by simp
next
  case (Cons formula fs)
  obtain formula_id formula_name expression where f: "formula = (formula_id, formula_name, expression)"
    by (cases formula)
  let ?rc = "synthetic_fields rt engine data earlier"
  let ?v = "fr_value (evaluate rt engine expression data (Some ?rc))"
  let ?rest = "record_values rt engine data ticker as_of (earlier @ [formula]) fs"
  have v: "formula_value rt engine data earlier formula = ?v"
    by (simp add: formula_value_def f)
  show ?case
  proof (cases "is_None ?v")
    case True
    then have rv: "record_values rt engine data ticker as_of earlier (formula # fs) = ?rest"
      by (simp add: v Let_def)
    from True have s: "synthetic_fields rt engine data (earlier @ [formula]) = ?rc"
      by (simp add: synthetic_fields_snoc register_value_def f Let_def)
    from Cons.prems have p: "i < length ?rest"
        "\<forall>j<i. conn (ws @ take j ?rest) (?rest ! j) = None"
        "conn (ws @ take i ?rest) (?rest ! i) = Some e"
      by (simp_all only: rv)
    from Cons.IH [OF p, of n]
    have "\<exists>rc. compute_formulas rt conn engine data ticker as_of fs (?rc, ws, n)
        = (Some e, rc, ws @ take i ?rest, n + i)"
      by (simp add: s)
    moreover from True
    have "compute_formulas rt conn engine data ticker as_of (formula # fs) (?rc, ws, n)
        = compute_formulas rt conn engine data ticker as_of fs (?rc, ws, n)"
      by (simp add: f Let_def)
    ultimately show ?thesis by (simp only: rv)
  next
    case False
    let ?w = "\<lparr>mw_ticker = ticker, mw_as_of = as_of, mw_metric_name = formula_name,
               mw_formula_id = formula_id, mw_value = ?v\<rparr>"
    from False have rv: "record_values rt engine data ticker as_of earlier (formula # fs) = ?w # ?rest"
      by (simp add: v Let_def) (simp add: f)
    from False have s: "synthetic_fields rt engine data (earlier @ [formula])
        = AList.update (replace_space (lower formula_name)) ?v ?rc"
      by (simp add: synthetic_fields_snoc register_value_def f Let_def)
    from Cons.prems have p: "i < length (?w # ?rest)"
        "\<forall>j<i. conn (ws @ take j (?w # ?rest)) ((?w # ?rest) ! j) = None"
        "conn (ws @ take i (?w # ?rest)) ((?w # ?rest) ! i) = Some e"
      by (simp_all only: rv)
    show ?thesis
    proof (cases i)
      case 0
      with p(3) have "conn ws ?w = Some e" by simp
      with False
      have "compute_formulas rt conn engine data ticker as_of (formula # fs) (?rc, ws, n)
          = (Some e, ?rc, ws, n)"
        by (simp add: f Let_def)
      with 0 show ?thesis by (simp only: rv) simp
    next
      case (Suc k)
      from p(2) [rule_format, of 0] Suc have w: "conn ws ?w = None" by simp
      have q: "k < length ?rest" using p(1) Suc by simp
      have q2: "\<forall>j<k. conn ((ws @ [?w]) @ take j ?rest) (?rest ! j) = None"
      proof (intro allI impI)
        fix j assume "j < k"
        with p(2) [rule_format, of "Suc j"] Suc
        have "conn (ws @ take (Suc j) (?w # ?rest)) ((?w # ?rest) ! Suc j) = None"
          by simp
        then show "conn ((ws @ [?w]) @ take j ?rest) (?rest ! j) = None" by simp
      qed
      have q3: "conn ((ws @ [?w]) @ take k ?rest) (?rest ! k) = Some e"
        using p(3) Suc by simp
      from Cons.IH [OF q q2 q3, of "n + 1"]
      have "\<exists>rc. compute_formulas rt conn engine data ticker as_of fs
            (AList.update (replace_space (lower formula_name)) ?v ?rc, ws @ [?w], n + 1)
          = (Some e, rc, ws @ take (Suc k) (?w # ?rest), n + Suc k)"
        by (simp add: s)
      moreover from False w
      have "compute_formulas rt conn engine data ticker as_of (formula # fs) (?rc, ws, n)
          = compute_formulas rt conn engine data ticker as_of fs
              (AList.update (replace_space (lower formula_name)) ?v ?rc, ws @ [?w], n + 1)"
        by (simp add: f Let_def)
      ultimately show ?thesis by (simp only: rv Suc)
    qed
  qed
qed

lemma batch_values_Cons:
  "map_of data ''ticker'' = Some ticker \<Longrightarrow> map_of data ''as_of'' = Some as_of
     \<Longrightarrow> batch_values rt engine formulas (data # rows)
       = record_values rt engine data ticker as_of [] formulas @ batch_values rt engine formulas rows"
  by (simp add: batch_values_def)

lemma compute_rows_refines:
  assumes "\<forall>data\<in>set rows. map_of data ''ticker'' \<noteq> None \<and> map_of data ''as_of'' \<noteq> None"
    and "\<forall>i<length (batch_values rt engine formulas rows).
      conn (ws @ take i (batch_values rt engine formulas rows))
        (batch_values rt engine formulas rows ! i) = None"
  shows "compute_rows rt conn engine formulas rows ws n
     = (Inr (n + length (batch_values rt engine formulas rows)),
        ws @ batch_values rt engine formulas rows)"
  using assms
proof (induction rows arbitrary: ws n)
  case Nil
  show ?case by (simp add: batch_values_def)
next
  case (Cons data rows)
  from Cons.prems(1) obtain ticker as_of where k: "map_of data ''ticker'' = Some ticker"
      "map_of data ''as_of'' = Some as_of"
    by auto
  let ?rv = "record_values rt engine data ticker as_of [] formulas"
  let ?bv = "batch_values rt engine formulas rows"
  note bv = batch_values_Cons [OF k, of rt engine formulas rows]
  from Cons.prems(2) have all: "\<forall>i<length ?rv + length ?bv.
      conn (ws @ take i (?rv @ ?bv)) ((?rv @ ?bv) ! i) = None"
    by (simp only: bv length_append)
  have "\<forall>i<length ?rv. conn (ws @ take i ?rv) (?rv ! i) = None"
  proof (intro allI impI)
    fix i assume i: "i < length ?rv"
    with all [rule_format, of i] have "conn (ws @ take i (?rv @ ?bv)) ((?rv @ ?bv) ! i) = None"
      by simp
    with i show "conn (ws @ take i ?rv) (?rv ! i) = None" by (simp add: nth_append)
  qed
  from compute_formulas_refines [OF this, of n]
  have c: "compute_formulas rt conn engine data ticker as_of formulas ([], ws, n)
      = (None, synthetic_fields rt engine data formulas, ws @ ?rv, n + length ?rv)"
    by (simp add: synthetic_fields_empty)
  have "\<forall>i<length ?bv. conn ((ws @ ?rv) @ take i ?bv) (?bv ! i) = None"
  proof (intro allI impI)
    fix i assume i: "i < length ?bv"
    with all [rule_format, of "length ?rv + i"]
    have "conn (ws @ take (length ?rv + i) (?rv @ ?bv)) ((?rv @ ?bv) ! (length ?rv + i)) = None"
      by simp
    then show "conn ((ws @ ?rv) @ take i ?bv) (?bv ! i) = None" by simp
  qed
  from Cons.IH [OF _ this, of "n + length ?rv"] Cons.prems(1)
  have "compute_rows rt conn engine formulas rows (ws @ ?rv) (n + length ?rv)
      = (Inr (n + length ?rv + length ?bv), (ws @ ?rv) @ ?bv)"
    by simp
  with k c show ?case by (simp add: bv)
qed

lemma compute_rows_aborts:
  assumes "\<forall>data\<in>set rows. map_of data ''ticker'' \<noteq> None \<and> map_of data ''as_of'' \<noteq> None"
    and "i < length (batch_values rt engine formulas rows)"
    and "\<forall>j<i. conn (ws @ take j (batch_values rt engine formulas rows))
        (batch_values rt engine formulas rows ! j) = None"
    and "conn (ws @ take i (batch_values rt engine formulas rows))
        (batch_values rt engine formulas rows ! i) = Some e"
  shows "compute_rows rt conn engine formulas rows ws n
     = (Inl e, ws @ take i (batch_values rt engine formulas rows))"
  using assms
proof (induction rows arbitrary: ws n i)
  case Nil
  then show ?case by (simp add: batch_values_def)
next
  case (Cons data rows)
  from Cons.prems(1) obtain ticker as_of where k: "map_of data ''ticker'' = Some ticker"
      "map_of data ''as_of'' = Some as_of"
    by auto
  let ?rv = "record_values rt engine data ticker as_of [] formulas"
  let ?bv = "batch_values rt engine formulas rows"
  note bv = batch_values_Cons [OF k, of rt engine formulas rows]
  from Cons.prems(2-4) have p: "i < length ?rv + length ?bv"
      "\<forall>j<i. conn (ws @ take j (?rv @ ?bv)) ((?rv @ ?bv) ! j) = None"
      "conn (ws @ take i (?rv @ ?bv)) ((?rv @ ?bv) ! i) = Some e"
    by (simp_all only: bv length_append)
  show ?case
  proof (cases "i < length ?rv")
    case True
    have a: "\<forall>j<i. conn (ws @ take j ?rv) (?rv ! j) = None"
    proof (intro allI impI)
      fix j assume j: "j < i"
      with p(2) have "conn (ws @ take j (?rv @ ?bv)) ((?rv @ ?bv) ! j) = None" by simp
      with j True show "conn (ws @ take j ?rv) (?rv ! j) = None" by (simp add: nth_append)
    qed
    from p(3) True have b: "conn (ws @ take i ?rv) (?rv ! i) = Some e" by (simp add: nth_append)
    from compute_formulas_aborts [OF True a b, of n]
    obtain rc where "compute_formulas rt conn engine data ticker as_of formulas ([], ws, n)
        = (Some e, rc, ws @ take i ?rv, n + i)"
      by (auto simp add: synthetic_fields_empty)
    with k True show ?thesis by (simp add: bv)
  next
    case False
    define m where "m = i - length ?rv"
    from False have i: "i = length ?rv + m" by (simp add: m_def)
    have "\<forall>j<length ?rv. conn (ws @ take j ?rv) (?rv ! j) = None"
    proof (intro allI impI)
      fix j assume j: "j < length ?rv"
      with False have "j < i" by simp
      with p(2) have "conn (ws @ take j (?rv @ ?bv)) ((?rv @ ?bv) ! j) = None" by simp
      with j show "conn (ws @ take j ?rv) (?rv ! j) = None" by (simp add: nth_append)
    qed
    from compute_formulas_refines [OF this, of n]
    have c: "compute_formulas rt conn engine data ticker as_of formulas ([], ws, n)
        = (None, synthetic_fields rt engine data formulas, ws @ ?rv, n + length ?rv)"
      by (simp add: synthetic_fields_empty)
    have q1: "m < length ?bv" using p(1) i by simp
    have q2: "\<forall>j<m. conn ((ws @ ?rv) @ take j ?bv) (?bv ! j) = None"
    proof (intro allI impI)
      fix j assume "j < m"
      then have "length ?rv + j < i" by (simp add: i)
      with p(2) have "conn (ws @ take (length ?rv + j) (?rv @ ?bv)) ((?rv @ ?bv) ! (length ?rv + j)) = None"
        by blast
      then show "conn ((ws @ ?rv) @ take j ?bv) (?bv ! j) = None" by simp
    qed
    have q3: "conn ((ws @ ?rv) @ take m ?bv) (?bv ! m) = Some e"
      using p(3) by (simp add: i)
    from Cons.IH [OF _ q1 q2 q3, of "n + length ?rv"] Cons.prems(1)
    have "compute_rows rt conn engine formulas rows (ws @ ?rv) (n + length ?rv)
        = (Inl e, (ws @ ?rv) @ take m ?bv)"
      by simp
    with k c show ?thesis by (simp add: bv i)
  qed
qed

lemma record_values_by_index:
  "record_values rt engine data ticker as_of earlier later
     = map (\<lambda>i. \<lparr>mw_ticker = ticker, mw_as_of = as_of, mw_metric_name = fst (snd (later ! i)),
                  mw_formula_id = fst (later ! i),
                  mw_value = formula_value rt engine data (earlier @ take i later) (later ! i)\<rparr>)
         (filter (\<lambda>i. \<not> is_None (formula_value rt engine data (earlier @ take i later) (later ! i)))
            [0..<length later])"
proof (induction later arbitrary: earlier)
  case Nil
  show ?case by simp
next
  case (Cons formula later)
  have u: "[0..<length (formula # later)] = 0 # map Suc [0..<length later]"
    by (simp add: upt_conv_Cons map_Suc_upt del: upt_Suc)
  show ?case
    by (simp only: u) (simp add: Cons.IH [of "earlier @ [formula]"] Let_def filter_map o_def)
qed

lemma registered_value_is_visible:
  assumes "\<not> is_None (formula_value rt engine data earlier (formula_id, formula_name, expression))"
    and "lower ident = replace_space (lower formula_name)"
  shows "formula_value rt engine data (earlier @ [(formula_id, formula_name, expression)])
        (formula_id', formula_name', Parsed (Name ident))
     = formula_value rt engine data earlier (formula_id, formula_name, expression)"
proof -
  let ?rc = "synthetic_fields rt engine data earlier"
  let ?v = "fr_value (evaluate rt engine expression data (Some ?rc))"
  have v: "formula_value rt engine data earlier (formula_id, formula_name, expression) = ?v"
    by (simp add: formula_value_def)
  with assms(1) have s: "synthetic_fields rt engine data (earlier @ [(formula_id, formula_name, expression)])
      = AList.update (replace_space (lower formula_name)) ?v ?rc"
    by (simp add: synthetic_fields_snoc register_value_def Let_def)
  have "evaluate rt engine (Parsed (Name ident)) data
      (Some (AList.update (replace_space (lower formula_name)) ?v ?rc))
      = \<lparr>fr_value = ?v, fr_error = None, fr_fields_used = [replace_space (lower formula_name)]\<rparr>"
    by (rule evaluate_registered_name [OF synthetic_fields_normalized lower_normalized assms(2)])
  then show ?thesis by (simp add: formula_value_def s)
qed

text \<open>
  Claim C4 does not hold as it is worded: it lets every non-null value be persisted and
  counted. A write can raise, and the call of \<^verbatim>\<open>conn.execute\<close> is not guarded: the batch below evaluates a formula to a non-null value that is no number (the ticker of the
  record, a text), the \<^verbatim>\<open>DOUBLE\<close> column refuses it, and the exception leaves
  \<^verbatim>\<open>compute_all_formulas\<close>: nothing is persisted, nothing is counted and no count is
  returned, although both formulas evaluate to a non-null value for the record.
\<close>

theorem insert_of_text_value_aborts_batch:
  "\<not> is_None (fr_value (evaluate plain_runtime (FormulaEngine_init plain_runtime None)
       (Parsed (Name ''ticker''))
       [(''ticker'', VObj ()), (''as_of'', VObj ()), (''eps'', VInt 5)] (Some [])))
   \<and> \<not> is_None (fr_value (evaluate plain_runtime (FormulaEngine_init plain_runtime None)
       (Parsed (BinOp (Name ''eps'') Mult (Constant (VInt 2))))
       [(''ticker'', VObj ()), (''as_of'', VObj ()), (''eps'', VInt 5)] (Some [])))
   \<and> compute_all_formulas plain_runtime double_column
       [(''f0'', ''Ticker'', Parsed (Name ''ticker'')),
        (''f1'', ''Double Eps'', Parsed (BinOp (Name ''eps'') Mult (Constant (VInt 2))))]
       [[(''ticker'', VObj ()), (''as_of'', VObj ()), (''eps'', VInt 5)]]
     = (Inl (OtherException ''ConversionException'' ''Could not convert value to DOUBLE''), [])"
  by (simp add: compute_all_formulas_def Let_def evaluate_def build_context_def dict_lower_def
        table_defs str_defs operator_mul_def py_builtin_def double_column_def)

text \<open>
  Claim C4, amended. During batch computation, for every record (with its \<^verbatim>\<open>ticker\<close>
  and \<^verbatim>\<open>as_of\<close> columns) and every formula taken in order, as long as every write to the
  storage succeeds: a formula that evaluates to a non-null value has that value registered
  under its normalized name (lower-cased, spaces replaced by underscores) in the
  synthetic-field map of the record, which starts empty for every record and holds the
  values of the formulas before it in the list only; the value is persisted; and the
  operation returns the number of (record, formula) evaluations that produced a non-null
  value. A write that raises ends the batch with that exception, before the value is
  registered or counted: the values persisted are those before it, and no count is
  returned.

  In the order of the statement below: the loop over the formulas of one record computes
  the synthetic-field map, the values to persist and their number as the specification
  describes them; so does the whole batch; the first write that raises ends the batch;
  within the loop, such a write leaves \<^verbatim>\<open>row_computed\<close> and \<^verbatim>\<open>computed_count\<close> as they were;
  a formula that is a name equal to the normalized name of the formula before it reads
  that formula's value; and the values persisted for a record are, for each index \<open>i\<close> of
  the list whose formula evaluates to a non-null value given the formulas before \<open>i\<close>,
  that value, so that their number is the number of these evaluations.
\<close>

theorem batch_registers_and_counts:
  "(\<forall>conn engine data ticker as_of formulas ws n.
      (\<forall>i<length (record_values rt engine data ticker as_of [] formulas).
          conn (ws @ take i (record_values rt engine data ticker as_of [] formulas))
            (record_values rt engine data ticker as_of [] formulas ! i) = None) \<longrightarrow>
      compute_formulas rt conn engine data ticker as_of formulas ([], ws, n)
        = (None, synthetic_fields rt engine data formulas,
           ws @ record_values rt engine data ticker as_of [] formulas,
           n + length (record_values rt engine data ticker as_of [] formulas)))
   \<and> (\<forall>conn formulas rows.
      (\<forall>data\<in>set rows. map_of data ''ticker'' \<noteq> None \<and> map_of data ''as_of'' \<noteq> None) \<longrightarrow>
      (\<forall>i<length (batch_values rt (FormulaEngine_init rt None) formulas rows).
          conn (take i (batch_values rt (FormulaEngine_init rt None) formulas rows))
            (batch_values rt (FormulaEngine_init rt None) formulas rows ! i) = None) \<longrightarrow>
      compute_all_formulas rt conn formulas rows
        = (Inr (length (batch_values rt (FormulaEngine_init rt None) formulas rows)),
           batch_values rt (FormulaEngine_init rt None) formulas rows))
   \<and> (\<forall>conn formulas rows i e.
      (\<forall>data\<in>set rows. map_of data ''ticker'' \<noteq> None \<and> map_of data ''as_of'' \<noteq> None) \<longrightarrow>
      i < length (batch_values rt (FormulaEngine_init rt None) formulas rows) \<longrightarrow>
      (\<forall>j<i. conn (take j (batch_values rt (FormulaEngine_init rt None) formulas rows))
            (batch_values rt (FormulaEngine_init rt None) formulas rows ! j) = None) \<longrightarrow>
      conn (take i (batch_values rt (FormulaEngine_init rt None) formulas rows))
        (batch_values rt (FormulaEngine_init rt None) formulas rows ! i) = Some e \<longrightarrow>
      compute_all_formulas rt conn formulas rows
        = (Inl e, take i (batch_values rt (FormulaEngine_init rt None) formulas rows)))
   \<and> (\<forall>conn engine data ticker as_of formula_id formula_name expression formulas rc ws n e.
      \<not> is_None (fr_value (evaluate rt engine expression data (Some rc))) \<longrightarrow>
      conn ws \<lparr>mw_ticker = ticker, mw_as_of = as_of, mw_metric_name = formula_name,
               mw_formula_id = formula_id,
               mw_value = fr_value (evaluate rt engine expression data (Some rc))\<rparr> = Some e \<longrightarrow>
      compute_formulas rt conn engine data ticker as_of
          ((formula_id, formula_name, expression) # formulas) (rc, ws, n)
        = (Some e, rc, ws, n))
   \<and> (\<forall>engine data earlier formula_id formula_name expression formula_id' formula_name' ident.
      \<not> is_None (formula_value rt engine data earlier (formula_id, formula_name, expression)) \<longrightarrow>
      lower ident = replace_space (lower formula_name) \<longrightarrow>
      formula_value rt engine data (earlier @ [(formula_id, formula_name, expression)])
          (formula_id', formula_name', Parsed (Name ident))
        = formula_value rt engine data earlier (formula_id, formula_name, expression))
   \<and> (\<forall>engine data ticker as_of formulas.
      record_values rt engine data ticker as_of [] formulas
        = map (\<lambda>i. \<lparr>mw_ticker = ticker, mw_as_of = as_of,
                     mw_metric_name = fst (snd (formulas ! i)), mw_formula_id = fst (formulas ! i),
                     mw_value = formula_value rt engine data (take i formulas) (formulas ! i)\<rparr>)
            (filter (\<lambda>i. \<not> is_None (formula_value rt engine data (take i formulas) (formulas ! i)))
               [0..<length formulas]))"
proof -
  have a: "compute_formulas rt conn engine data ticker as_of formulas ([], ws, n)
        = (None, synthetic_fields rt engine data formulas,
           ws @ record_values rt engine data ticker as_of [] formulas,
           n + length (record_values rt engine data ticker as_of [] formulas))"
    if "\<forall>i<length (record_values rt engine data ticker as_of [] formulas).
          conn (ws @ take i (record_values rt engine data ticker as_of [] formulas))
            (record_values rt engine data ticker as_of [] formulas ! i) = None"
    for conn and engine :: "'a FormulaEngine" and data ticker as_of formulas ws n
    using compute_formulas_refines [of rt engine data ticker as_of "[]" formulas conn ws n] that
    by (simp add: synthetic_fields_empty)
  have b: "compute_all_formulas rt conn formulas rows
        = (Inr (length (batch_values rt (FormulaEngine_init rt None) formulas rows)),
           batch_values rt (FormulaEngine_init rt None) formulas rows)"
    if "\<forall>data\<in>set rows. map_of data ''ticker'' \<noteq> None \<and> map_of data ''as_of'' \<noteq> None"
      and "\<forall>i<length (batch_values rt (FormulaEngine_init rt None) formulas rows).
          conn (take i (batch_values rt (FormulaEngine_init rt None) formulas rows))
            (batch_values rt (FormulaEngine_init rt None) formulas rows ! i) = None"
    for conn formulas rows
    using compute_rows_refines [of rows rt "FormulaEngine_init rt None" formulas conn "[]" 0] that
    by (simp add: compute_all_formulas_def Let_def)
  have c: "compute_all_formulas rt conn formulas rows
        = (Inl e, take i (batch_values rt (FormulaEngine_init rt None) formulas rows))"
    if "\<forall>data\<in>set rows. map_of data ''ticker'' \<noteq> None \<and> map_of data ''as_of'' \<noteq> None"
      and "i < length (batch_values rt (FormulaEngine_init rt None) formulas rows)"
      and "\<forall>j<i. conn (take j (batch_values rt (FormulaEngine_init rt None) formulas rows))
            (batch_values rt (FormulaEngine_init rt None) formulas rows ! j) = None"
      and "conn (take i (batch_values rt (FormulaEngine_init rt None) formulas rows))
        (batch_values rt (FormulaEngine_init rt None) formulas rows ! i) = Some e"
    for conn formulas rows i e
    using compute_rows_aborts [of rows i rt "FormulaEngine_init rt None" formulas conn "[]" e 0] that
    by (simp add: compute_all_formulas_def Let_def)
  show ?thesis
    apply (intro conjI allI impI)
    subgoal by (rule a)
    subgoal by (rule b)
    subgoal by (rule c)
    subgoal by (simp add: Let_def)
    subgoal by (rule registered_value_is_visible)
    subgoal using record_values_by_index [where earlier = "[]"] by simp
    done
qed

theorem batch_registers_and_counts_witness:
  "compute_all_formulas plain_runtime accepting_connection
      [(''f1'', ''Double Eps'', Parsed (BinOp (Name ''eps'') Mult (Constant (VInt 2)))),
       (''f2'', ''Next'', Parsed (BinOp (Name ''Double_EPS'') Add (Constant (VInt 1))))]
      [[(''ticker'', VObj ()), (''as_of'', VObj ()), (''eps'', VInt 5)],
       [(''ticker'', VObj ()), (''as_of'', VObj ()), (''eps'', VNone)]]
     = (Inr 2,
        [\<lparr>mw_ticker = VObj (), mw_as_of = VObj (), mw_metric_name = ''Double Eps'',
          mw_formula_id = ''f1'', mw_value = VInt 10\<rparr>,
         \<lparr>mw_ticker = VObj (), mw_as_of = VObj (), mw_metric_name = ''Next'',
          mw_formula_id = ''f2'', mw_value = VInt 11\<rparr>])
   \<and> compute_all_formulas plain_runtime double_column
      [(''f1'', ''Double Eps'', Parsed (BinOp (Name ''eps'') Mult (Constant (VInt 2)))),
       (''f0'', ''Ticker'', Parsed (Name ''ticker'')),
       (''f2'', ''Next'', Parsed (BinOp (Name ''Double_EPS'') Add (Constant (VInt 1))))]
      [[(''ticker'', VObj ()), (''as_of'', VObj ()), (''eps'', VInt 5)]]
     = (Inl (OtherException ''ConversionException'' ''Could not convert value to DOUBLE''),
        [\<lparr>mw_ticker = VObj (), mw_as_of = VObj (), mw_metric_name = ''Double Eps'',
          mw_formula_id = ''f1'', mw_value = VInt 10\<rparr>])"
proof -
  let ?rt = plain_runtime
  let ?eng = "FormulaEngine_init plain_runtime None"
  let ?f0 = "(''f0'', ''Ticker'', Parsed (Name ''ticker'' :: unit node))"
  let ?f1 = "(''f1'', ''Double Eps'', Parsed (BinOp (Name ''eps'') Mult (Constant (VInt 2 :: unit pyval))))"
  let ?f2 = "(''f2'', ''Next'', Parsed (BinOp (Name ''Double_EPS'') Add (Constant (VInt 1 :: unit pyval))))"
  let ?row1 = "[(''ticker'', VObj ()), (''as_of'', VObj ()), (''eps'', VInt 5)]"
  let ?row2 = "[(''ticker'', VObj ()), (''as_of'', VObj ()), (''eps'', VNone)]"
  let ?w0 = "\<lparr>mw_ticker = VObj (), mw_as_of = VObj (), mw_metric_name = ''Ticker'',
          mw_formula_id = ''f0'', mw_value = VObj ()\<rparr>"
  let ?w1 = "\<lparr>mw_ticker = VObj (), mw_as_of = VObj (), mw_metric_name = ''Double Eps'',
          mw_formula_id = ''f1'', mw_value = VInt 10\<rparr>"
  let ?w2 = "\<lparr>mw_ticker = VObj (), mw_as_of = VObj (), mw_metric_name = ''Next'',
          mw_formula_id = ''f2'', mw_value = VInt 11\<rparr>"
  note t = batch_registers_and_counts [of ?rt]
  note t2 = t [THEN conjunct2, THEN conjunct1, THEN spec, THEN spec, THEN spec, THEN mp, THEN mp]
  note t3 = t [THEN conjunct2, THEN conjunct2, THEN conjunct1, THEN spec, THEN spec, THEN spec,
      THEN spec, THEN spec, THEN mp, THEN mp, THEN mp, THEN mp]
  note defs = batch_values_def formula_value_def synthetic_fields_def register_value_def Let_def
    evaluate_def build_context_def dict_lower_def table_defs str_defs operator_mul_def
    operator_add_def py_builtin_def
  have bv1: "batch_values ?rt ?eng [?f1, ?f2] [?row1, ?row2] = [?w1, ?w2]"
    by (simp add: defs)
  have k1: "\<forall>data\<in>set [?row1, ?row2]. map_of data ''ticker'' \<noteq> None \<and> map_of data ''as_of'' \<noteq> None"
    by simp
  have s1: "\<forall>i<length (batch_values ?rt ?eng [?f1, ?f2] [?row1, ?row2]).
      accepting_connection (take i (batch_values ?rt ?eng [?f1, ?f2] [?row1, ?row2]))
        (batch_values ?rt ?eng [?f1, ?f2] [?row1, ?row2] ! i) = None"
    by (simp add: accepting_connection_def)
  have a: "compute_all_formulas ?rt accepting_connection [?f1, ?f2] [?row1, ?row2] = (Inr 2, [?w1, ?w2])"
    using t2 [OF k1 s1] by (simp add: bv1)
  have bv2: "batch_values ?rt ?eng [?f1, ?f0, ?f2] [?row1] = [?w1, ?w0, ?w2]"
    by (simp add: defs)
  have k2: "\<forall>data\<in>set [?row1]. map_of data ''ticker'' \<noteq> None \<and> map_of data ''as_of'' \<noteq> None"
    by simp
  have i2: "Suc 0 < length (batch_values ?rt ?eng [?f1, ?f0, ?f2] [?row1])"
    by (simp add: bv2)
  have s2: "\<forall>j<Suc 0. double_column (take j (batch_values ?rt ?eng [?f1, ?f0, ?f2] [?row1]))
        (batch_values ?rt ?eng [?f1, ?f0, ?f2] [?row1] ! j) = None"
    by (simp add: bv2 double_column_def)
  have e2: "double_column (take (Suc 0) (batch_values ?rt ?eng [?f1, ?f0, ?f2] [?row1]))
        (batch_values ?rt ?eng [?f1, ?f0, ?f2] [?row1] ! Suc 0)
      = Some (OtherException ''ConversionException'' ''Could not convert value to DOUBLE'')"
    by (simp add: bv2 double_column_def)
  have b: "compute_all_formulas ?rt double_column [?f1, ?f0, ?f2] [?row1]
      = (Inl (OtherException ''ConversionException'' ''Could not convert value to DOUBLE''), [?w1])"
    using t3 [OF k2 i2 s2 e2] by (simp add: bv2)
  from a b show ?thesis by simp
qed

end
